theory Spec2Isabelle
  imports Complex_Main
begin

section \<open>JavaScript values and the calls handed to the tracking transport\<close>

text \<open>
  The site is plain browser JavaScript.  Values are modelled by one datatype; an object
  literal is an association list in insertion order.  A number is a real (the NaN that
  \<^verbatim>\<open>parseInt\<close> may return is a value of its own).
\<close>

datatype jsval =
    JUndefined
  | JNull
  | JBool bool
  | JNum real
  | JNaN
  | JStr string
  | JArr "jsval list"
  | JObj "(string \<times> jsval) list"

type_synonym jsobj = "(string \<times> jsval) list"

text \<open>JavaScript truthiness, as used by \<^verbatim>\<open>||\<close>, \<^verbatim>\<open>&&\<close>, \<^verbatim>\<open>!\<close> and \<^verbatim>\<open>?:\<close>.\<close>

fun truthy :: "jsval \<Rightarrow> bool" where
  "truthy JUndefined = False"
| "truthy JNull = False"
| "truthy (JBool b) = b"
| "truthy (JNum r) = (r \<noteq> 0)"
| "truthy JNaN = False"
| "truthy (JStr s) = (s \<noteq> [])"
| "truthy (JArr xs) = True"
| "truthy (JObj kvs) = True"

definition js_or :: "jsval \<Rightarrow> jsval \<Rightarrow> jsval" where
  "js_or a b = (if truthy a then a else b)"

text \<open>Property read \<^verbatim>\<open>o.k\<close>: a missing property is \<^verbatim>\<open>undefined\<close>.\<close>

definition obj_get :: "jsobj \<Rightarrow> string \<Rightarrow> jsval" where
  "obj_get ob k = (case map_of ob k of None \<Rightarrow> JUndefined | Some v \<Rightarrow> v)"

text \<open>Property write: an existing key keeps its place, a new key goes last.\<close>

fun obj_put :: "string \<Rightarrow> jsval \<Rightarrow> jsobj \<Rightarrow> jsobj" where
  "obj_put k v [] = [(k, v)]"
| "obj_put k v ((k', v') # kvs) =
     (if k = k' then (k, v) # kvs else (k', v') # obj_put k v kvs)"

text \<open>An object literal \<^verbatim>\<open>{ ...base, k1: v1, ... }\<close>: the entries written in order.\<close>

definition obj_lit :: "jsobj \<Rightarrow> jsobj" where
  "obj_lit kvs = fold (\<lambda>(k, v). obj_put k v) kvs []"

definition obj_keys :: "jsobj \<Rightarrow> string list" where
  "obj_keys ob = map fst ob"

text \<open>
  The transport is the global \<^verbatim>\<open>analytics\<close> object of the tracking library.  The
  model records every call made to its four primitives, in order.
\<close>

datatype call =
    Page string jsobj
  | Identify jsval jsobj
  | Track string jsobj
  | Reset

section \<open>generateRandomUserId\<close>

text \<open>
  \<^verbatim>\<open>Math.random()\<close> is modelled by a source of outcomes \<open>rnd\<close> and a position in
  it: draw number \<open>p\<close> returns \<open>rnd p\<close>.  The product with the alphabet's length and
  \<^verbatim>\<open>Math.floor\<close> are taken over the reals.
\<close>

definition characters :: string where
  "characters = ''ABCDEFGHIJKLMNOPQRSTUVWXYZ0123456789''"

text \<open>\<^verbatim>\<open>s.charAt(i)\<close>: the empty string when \<open>i\<close> is out of range.\<close>

definition charAt :: "string \<Rightarrow> int \<Rightarrow> string" where
  "charAt s i = (if 0 \<le> i \<and> i < int (length s) then [s ! nat i] else [])"

text \<open>The loop \<^verbatim>\<open>for (let i = 0; i < 5; i++) result += ...\<close>, by the iterations left.\<close>

fun userIdLoop :: "nat \<Rightarrow> (nat \<Rightarrow> real) \<Rightarrow> nat \<Rightarrow> string \<Rightarrow> string \<times> nat" where
  "userIdLoop 0 rnd p result = (result, p)"
| "userIdLoop (Suc k) rnd p result =
     userIdLoop k rnd (Suc p)
       (result @ charAt characters \<lfloor>rnd p * real (length characters)\<rfloor>)"

text \<open>\<^verbatim>\<open>VeedAnalytics.generateRandomUserId\<close>: the id and the next draw position.\<close>

definition generateRandomUserId :: "(nat \<Rightarrow> real) \<Rightarrow> nat \<Rightarrow> string \<times> nat" where
  "generateRandomUserId rnd p = userIdLoop 5 rnd p []"

text \<open>\<^verbatim>\<open>VeedApp.generateRandomUserId\<close> in main.js is the same code.\<close>

definition app_generateRandomUserId :: "(nat \<Rightarrow> real) \<Rightarrow> nat \<Rightarrow> string \<times> nat" where
  "app_generateRandomUserId rnd p = userIdLoop 5 rnd p []"

text \<open>What \<^verbatim>\<open>Math.random\<close> promises: every outcome lies in the half-open unit interval.\<close>

definition unit_draws :: "(nat \<Rightarrow> real) \<Rightarrow> bool" where
  "unit_draws rnd = (\<forall>n. 0 \<le> rnd n \<and> rnd n < 1)"

section \<open>Scroll-depth milestones\<close>

text \<open>
  The variables closed over by the scroll listener of \<^verbatim>\<open>setupEventListeners\<close>:
  \<^verbatim>\<open>maxScrollDepth\<close> and the four flags of \<^verbatim>\<open>scrollMilestones\<close>.
\<close>

record scroll_vars =
  maxScrollDepth :: real
  fired25 :: bool
  fired50 :: bool
  fired75 :: bool
  fired100 :: bool

definition scroll_init :: scroll_vars where
  "scroll_init = \<lparr> maxScrollDepth = 0, fired25 = False, fired50 = False,
                    fired75 = False, fired100 = False \<rparr>"

definition scrolled :: "string \<Rightarrow> call" where
  "scrolled d = Track ''Page Scrolled'' [(''depth'', JStr d), (''page'', JStr ''VEED Homepage'')]"

text \<open>
  The body of the debounced callback, run on one sampled depth (the value the callback
  computes into \<^verbatim>\<open>scrollDepth\<close>, a fraction of the page height): the calls it makes to
  \<^verbatim>\<open>analytics.track\<close> and the updated variables.  The four tests form one
  \<^verbatim>\<open>if / else if\<close> chain, so one sample fires at most one milestone.
\<close>

definition onScrollSample :: "real \<Rightarrow> scroll_vars \<Rightarrow> call list \<times> scroll_vars" where
  "onScrollSample d v =
     (if d > maxScrollDepth v then
        (let v1 = v\<lparr>maxScrollDepth := d\<rparr> in
         if d \<ge> 0.25 \<and> \<not> fired25 v1 then ([scrolled ''25%''], v1\<lparr>fired25 := True\<rparr>)
         else if d \<ge> 0.50 \<and> \<not> fired50 v1 then ([scrolled ''50%''], v1\<lparr>fired50 := True\<rparr>)
         else if d \<ge> 0.75 \<and> \<not> fired75 v1 then ([scrolled ''75%''], v1\<lparr>fired75 := True\<rparr>)
         else if d \<ge> 0.95 \<and> \<not> fired100 v1 then ([scrolled ''100%''], v1\<lparr>fired100 := True\<rparr>)
         else ([], v1))
      else ([], v))"

text \<open>A session's samples, each delivered to the callback in turn.\<close>

fun scrollSession :: "real list \<Rightarrow> scroll_vars \<Rightarrow> call list \<times> scroll_vars" where
  "scrollSession [] v = ([], v)"
| "scrollSession (d # ds) v =
     (let (cs, v1) = onScrollSample d v; (cs', v2) = scrollSession ds v1 in (cs @ cs', v2))"

text \<open>The flag of a milestone, by the depth label of its event.\<close>

definition fired :: "scroll_vars \<Rightarrow> string \<Rightarrow> bool" where
  "fired v d = (if d = ''25%'' then fired25 v else if d = ''50%'' then fired50 v
                else if d = ''75%'' then fired75 v else if d = ''100%'' then fired100 v
                else False)"

definition milestones :: "string list" where
  "milestones = [''25%'', ''50%'', ''75%'', ''100%'']"

section \<open>The browser state\<close>

text \<open>
  What the runtime and the page supply and the program only reads: the outcomes of
  \<^verbatim>\<open>Math.random\<close>, the clock, the library conversions between numbers and
  text (\<^verbatim>\<open>Number.toString\<close>, \<^verbatim>\<open>parseInt\<close>, \<^verbatim>\<open>Date.toISOString\<close>,
  \<^verbatim>\<open>toString(36).substr(2, 9)\<close>), the page's location and the anonymous id held by
  the transport.  The clock does not advance inside one handler.
\<close>

record env =
  rnd :: "nat \<Rightarrow> real"
  now_ms :: int
  iso :: "int \<Rightarrow> string"
  num_text :: "real \<Rightarrow> string"
  parse_int :: "string \<Rightarrow> int option"
  base36 :: "real \<Rightarrow> string"
  href :: string
  pathname :: string
  referrer :: string
  title :: string
  userAgent :: string
  screenWidth :: real
  screenHeight :: real
  transport_anonymousId :: string

text \<open>
  The mutable state.  \<open>analytics_defined\<close> says whether the tracking library loaded
  (\<^verbatim>\<open>typeof analytics !== 'undefined'\<close>); \<open>calls\<close> is the log of calls it received.

  \<^verbatim>\<open>localStorage\<close> maps keys to texts (\<open>plain\<close>).  The two entries that the program
  reads back with \<^verbatim>\<open>JSON.parse\<close> are written only by the program, with
  \<^verbatim>\<open>JSON.stringify\<close>: \<^verbatim>\<open>veed_user_data\<close> always from an object and
  \<^verbatim>\<open>onboarding_milestones\<close> always from an array of strings.  They are kept in
  parsed form, in \<open>user_data\<close> and \<open>onboarding_milestones\<close>; \<open>None\<close> is an absent key.

  The \<open>va_\<close> fields are the \<^verbatim>\<open>VeedAnalytics\<close> instance (\<open>va_assigned\<close>: it has
  been stored in \<^verbatim>\<open>window.veedAnalytics\<close>); the \<open>app_\<close> fields are the
  \<^verbatim>\<open>VeedApp\<close> instance.
\<close>

record state =
  env :: env
  rpos :: nat
  analytics_defined :: bool
  calls :: "call list"
  plain :: "string \<rightharpoonup> string"
  user_data :: "jsobj option"
  onboarding_milestones :: "string list option"
  va_assigned :: bool
  va_userId :: jsval
  va_sessionId :: string
  va_anonymousId :: jsval
  va_isInitialized :: bool
  va_listening :: bool
  app_currentUser :: "jsobj option"
  app_currentPlan :: string
  app_projectCount :: int
  app_sessionStartTime :: int

text \<open>
  A handler either completes or throws; what it did before throwing persists, so both
  outcomes carry the state.  A ReferenceError is thrown by a reference to the undefined
  global \<^verbatim>\<open>analytics\<close>, a TypeError by reading a property of \<^verbatim>\<open>undefined\<close> or
  \<^verbatim>\<open>null\<close> and by calling what is not a function.
\<close>

datatype error = ReferenceError | TypeError

type_synonym outcome = "error option \<times> state"

definition seq :: "(state \<Rightarrow> outcome) \<Rightarrow> (state \<Rightarrow> outcome) \<Rightarrow> state \<Rightarrow> outcome" where
  "seq f g s = (case f s of (None, s1) \<Rightarrow> g s1 | (Some e, s1) \<Rightarrow> (Some e, s1))"

definition ret :: "state \<Rightarrow> outcome" where
  "ret s = (None, s)"

text \<open>
  A call \<^verbatim>\<open>analytics.m(args)\<close>.  The reference to \<^verbatim>\<open>analytics\<close> is evaluated
  before the arguments: when the global is undefined a ReferenceError is thrown and the
  arguments (\<open>mk\<close>, which may draw random numbers) are not evaluated.
\<close>

definition analytics_call :: "(state \<Rightarrow> call \<times> state) \<Rightarrow> state \<Rightarrow> outcome" where
  "analytics_call mk s =
     (if analytics_defined s
      then (let (c, s1) = mk s in (None, s1\<lparr>calls := calls s1 @ [c]\<rparr>))
      else (Some ReferenceError, s))"

subsection \<open>Random draws\<close>

definition random :: "state \<Rightarrow> real \<times> state" where
  "random s = (rnd (env s) (rpos s), s\<lparr>rpos := Suc (rpos s)\<rparr>)"

text \<open>\<^verbatim>\<open>Math.floor(Math.random() * n)\<close>\<close>

definition random_below :: "nat \<Rightarrow> state \<Rightarrow> jsval \<times> state" where
  "random_below n s = (let (r, s1) = random s in (JNum (of_int \<lfloor>r * real n\<rfloor>), s1))"

text \<open>Array read \<^verbatim>\<open>xs[i]\<close>: \<^verbatim>\<open>undefined\<close> out of range.\<close>

definition arr_at :: "jsval list \<Rightarrow> int \<Rightarrow> jsval" where
  "arr_at xs i = (if 0 \<le> i \<and> i < int (length xs) then xs ! nat i else JUndefined)"

text \<open>\<^verbatim>\<open>xs[Math.floor(Math.random() * xs.length)]\<close> on an array of string literals.\<close>

definition pick :: "string list \<Rightarrow> state \<Rightarrow> jsval \<times> state" where
  "pick xs s = (let (r, s1) = random s in (arr_at (map JStr xs) \<lfloor>r * real (length xs)\<rfloor>, s1))"

definition va_generateRandomUserId :: "state \<Rightarrow> string \<times> state" where
  "va_generateRandomUserId s =
     (let (uid, p) = generateRandomUserId (rnd (env s)) (rpos s) in (uid, s\<lparr>rpos := p\<rparr>))"

definition vapp_generateRandomUserId :: "state \<Rightarrow> string \<times> state" where
  "vapp_generateRandomUserId s =
     (let (uid, p) = app_generateRandomUserId (rnd (env s)) (rpos s) in (uid, s\<lparr>rpos := p\<rparr>))"

subsection \<open>Texts and localStorage\<close>

definition join :: "string \<Rightarrow> string list \<Rightarrow> string" where
  "join sep xs = (case xs of [] \<Rightarrow> [] | y # ys \<Rightarrow> y @ concat (map (\<lambda>z. sep @ z) ys))"

text \<open>\<^verbatim>\<open>String(v)\<close>, which \<^verbatim>\<open>localStorage.setItem\<close> applies to the value it stores.\<close>

fun js_text :: "(real \<Rightarrow> string) \<Rightarrow> jsval \<Rightarrow> string" where
  "js_text nt JUndefined = ''undefined''"
| "js_text nt JNull = ''null''"
| "js_text nt (JBool b) = (if b then ''true'' else ''false'')"
| "js_text nt (JNum r) = nt r"
| "js_text nt JNaN = ''NaN''"
| "js_text nt (JStr t) = t"
| "js_text nt (JArr xs) =
     join '','' (map (\<lambda>x. if x = JNull \<or> x = JUndefined then [] else js_text nt x) xs)"
| "js_text nt (JObj kvs) = ''[object Object]''"

definition getItem :: "string \<Rightarrow> state \<Rightarrow> string option" where
  "getItem k s = plain s k"

definition setItem :: "string \<Rightarrow> string \<Rightarrow> state \<Rightarrow> state" where
  "setItem k t s = s\<lparr>plain := (plain s)(k \<mapsto> t)\<rparr>"

definition removeItem :: "string \<Rightarrow> state \<Rightarrow> state" where
  "removeItem k s =
     s\<lparr>plain := (plain s)(k := None),
       user_data := (if k = ''veed_user_data'' then None else user_data s),
       onboarding_milestones :=
         (if k = ''onboarding_milestones'' then None else onboarding_milestones s)\<rparr>"

text \<open>The keys present in \<^verbatim>\<open>localStorage\<close>.\<close>

definition store_keys :: "state \<Rightarrow> string set" where
  "store_keys s =
     dom (plain s)
     \<union> (if user_data s = None then {} else {''veed_user_data''})
     \<union> (if onboarding_milestones s = None then {} else {''onboarding_milestones''})"

text \<open>A text read from the store as a value: \<^verbatim>\<open>null\<close> when the key is absent.\<close>

definition nullable :: "string option \<Rightarrow> jsval" where
  "nullable t = (case t of None \<Rightarrow> JNull | Some x \<Rightarrow> JStr x)"

text \<open>\<^verbatim>\<open>localStorage.getItem(k) || dflt\<close> with a text default.\<close>

definition text_or :: "string option \<Rightarrow> string \<Rightarrow> string" where
  "text_or t dflt = (case t of None \<Rightarrow> dflt | Some x \<Rightarrow> (if x = [] then dflt else x))"

text \<open>
  \<^verbatim>\<open>JSON.stringify\<close> of an object followed by \<^verbatim>\<open>JSON.parse\<close>: a property whose
  value is \<^verbatim>\<open>undefined\<close> is dropped (the objects stored here hold texts and
  \<^verbatim>\<open>null\<close> only).
\<close>

definition json_obj :: "jsobj \<Rightarrow> jsobj" where
  "json_obj ob = filter (\<lambda>kv. snd kv \<noteq> JUndefined) ob"

text \<open>\<^verbatim>\<open>JSON.parse(localStorage.getItem('veed_user_data') || '{}')\<close>\<close>

definition storedUserData :: "state \<Rightarrow> jsobj" where
  "storedUserData s = (case user_data s of None \<Rightarrow> [] | Some u \<Rightarrow> u)"

text \<open>\<^verbatim>\<open>email.split('@')[0]\<close>: the text before the first \<^verbatim>\<open>@\<close>.\<close>

definition before_at :: "string \<Rightarrow> string" where
  "before_at email = takeWhile (\<lambda>c. c \<noteq> CHR ''@'') email"

section \<open>VeedAnalytics (analytics.js)\<close>

definition getUserId :: "state \<Rightarrow> jsval" where
  "getUserId s =
     (let userId = getItem ''veed_user_id'' s in
      if truthy (nullable userId) \<and> user_data s \<noteq> None then nullable userId else JNull)"

definition generateSessionId :: "state \<Rightarrow> string \<times> state" where
  "generateSessionId s =
     (let (r, s1) = random s in
      (''session_'' @ num_text (env s) (of_int (now_ms (env s))) @ ''_'' @ base36 (env s) r, s1))"

definition generateUTMParameters :: "state \<Rightarrow> jsobj \<times> state" where
  "generateUTMParameters s =
     (let (src, s1) = pick [''google'', ''facebook'', ''twitter'', ''linkedin'', ''youtube'',
                            ''direct'', ''email''] s;
          (med, s2) = pick [''cpc'', ''social'', ''organic'', ''email'', ''referral'', ''display''] s1;
          (cmp, s3) = pick [''brand_awareness'', ''conversion'', ''retargeting'', ''video_tools'',
                            ''free_trial''] s2;
          (cnt, s4) = pick [''hero_cta'', ''pricing_page'', ''feature_demo'', ''blog_post'',
                            ''case_study''] s3
      in ([(''utm_source'', src), (''utm_medium'', med), (''utm_campaign'', cmp),
           (''utm_content'', cnt), (''utm_term'', JStr ''video editor online free'')], s4))"

definition getUserPlan :: "state \<Rightarrow> string" where
  "getUserPlan s = text_or (getItem ''user_plan'' s) ''free''"

definition getCompletedMilestones :: "state \<Rightarrow> string list" where
  "getCompletedMilestones s = (case onboarding_milestones s of None \<Rightarrow> [] | Some ms \<Rightarrow> ms)"

definition updateOnboardingProgress :: "string \<Rightarrow> state \<Rightarrow> state" where
  "updateOnboardingProgress milestone s =
     (let ms = getCompletedMilestones s in
      if milestone \<notin> set ms then s\<lparr>onboarding_milestones := Some (ms @ [milestone])\<rparr> else s)"

definition getUserJourneyStage :: "state \<Rightarrow> string" where
  "getUserJourneyStage s =
     (if \<not> truthy (obj_get (storedUserData s) ''email'') then ''anonymous''
      else if ''first_project_created'' \<notin> set (getCompletedMilestones s) then ''onboarding''
      else if getUserPlan s = ''free'' then ''freemium''
      else ''paid_user'')"

definition isTrialUser :: "state \<Rightarrow> jsval \<times> state" where
  "isTrialUser s = (let (r, s1) = random s in (JBool (r > 0.7), s1))"

definition getLoginCount :: "state \<Rightarrow> int option" where
  "getLoginCount s = parse_int (env s) (text_or (getItem ''login_count'' s) ''0'')"

text \<open>A number that may be NaN (\<open>None\<close>), as a value and as the text of \<^verbatim>\<open>toString()\<close>.\<close>

definition num_val :: "int option \<Rightarrow> jsval" where
  "num_val n = (case n of None \<Rightarrow> JNaN | Some i \<Rightarrow> JNum (of_int i))"

text \<open>
  The two table lookups below, \<^verbatim>\<open>categories[feature]\<close> and
  \<^verbatim>\<open>monthlyPrices[planData.plan]\<close>, are modelled on the tables' own keys; a key
  that names a property inherited from \<^verbatim>\<open>Object.prototype\<close> (such as
  \<^verbatim>\<open>constructor\<close>) is outside the model.
\<close>

definition getFeatureCategory :: "string \<Rightarrow> string" where
  "getFeatureCategory feature =
     (case map_of [(''subtitles'', ''ai_tools''), (''screen-record'', ''recording''),
                   (''collaboration'', ''team_features'')] feature
      of None \<Rightarrow> ''editing_tools'' | Some c \<Rightarrow> c)"

definition getFeatureAvailability :: "state \<Rightarrow> string" where
  "getFeatureAvailability s = (if getUserPlan s = ''free'' then ''limited'' else ''full'')"

text \<open>\<^verbatim>\<open>monthlyPrices[planData.plan] || 0\<close>\<close>

definition calculateMRR :: "env \<Rightarrow> jsobj \<Rightarrow> real" where
  "calculateMRR e planData =
     (case map_of [(''free'', 0), (''pro'', 24), (''business'', 59)]
             (js_text (num_text e) (obj_get planData ''plan''))
      of None \<Rightarrow> 0 | Some p \<Rightarrow> p)"

text \<open>\<^verbatim>\<open>trackPageView\<close>: the property map is built first, then handed to \<^verbatim>\<open>analytics.page\<close>.\<close>

definition trackPageView :: "state \<Rightarrow> outcome" where
  "trackPageView s =
     (let (utmParams, s1) = generateUTMParameters s;
          pageProperties = obj_lit
            ([(''url'', JStr (href (env s1))), (''path'', JStr (pathname (env s1))),
              (''referrer'', JStr (referrer (env s1))), (''title'', JStr (title (env s1)))]
             @ utmParams @
             [(''userAgent'', JStr (userAgent (env s1))),
              (''screenWidth'', JNum (screenWidth (env s1))),
              (''screenHeight'', JNum (screenHeight (env s1))),
              (''userJourneyStage'', JStr (getUserJourneyStage s1)),
              (''isAuthenticated'', JBool (truthy (nullable (getItem ''veed_user_id'' s1))))])
      in analytics_call (\<lambda>s. (Page ''VEED Homepage'' pageProperties, s)) s1)"

definition identifyExistingUser :: "jsval \<Rightarrow> state \<Rightarrow> outcome" where
  "identifyExistingUser userId s =
     (let ud = storedUserData s;
          currentPlan = text_or (getItem ''user_plan'' s) ''free''
      in seq (analytics_call (\<lambda>s.
                let (trial, s1) = isTrialUser s in
                (Identify userId
                   [(''name'', obj_get ud ''name''),
                    (''email'', js_or (obj_get ud ''email'') (nullable (getItem ''veed_user_email'' s))),
                    (''company'', js_or (obj_get ud ''company'') JNull),
                    (''plan'', JStr currentPlan),
                    (''createdAt'', js_or (obj_get ud ''createdAt'') (obj_get ud ''signupDate'')),
                    (''role'', js_or (obj_get ud ''role'') (JStr ''user'')),
                    (''isTrial'', trial)], s1)))
             (\<lambda>s. ret (s\<lparr>va_userId := userId\<rparr>)) s)"

text \<open>\<^verbatim>\<open>setupEventListeners\<close> registers the listeners (their bodies are modelled apart).\<close>

definition setupEventListeners :: "state \<Rightarrow> outcome" where
  "setupEventListeners s = ret (s\<lparr>va_listening := True\<rparr>)"

definition initializeTracking :: "state \<Rightarrow> outcome" where
  "initializeTracking s =
     seq trackPageView
       (seq (\<lambda>s. let storedUserId = getItem ''veed_user_id'' s in
                  if truthy (nullable storedUserId) \<and> user_data s \<noteq> None
                  then identifyExistingUser (nullable storedUserId) s
                  else ret s)
            setupEventListeners)
       (s\<lparr>va_isInitialized := True\<rparr>)"

text \<open>
  The constructor.  With the library loaded, the callback given to
  \<^verbatim>\<open>analytics.ready\<close> is run by the transport; it is taken here as part of the
  construction.  Without it, the fallback branch runs.
\<close>

definition VeedAnalytics_constructor :: "state \<Rightarrow> outcome" where
  "VeedAnalytics_constructor s =
     (let s1 = s\<lparr>va_userId := getUserId s\<rparr>;
          (sid, s2) = generateSessionId s1;
          s3 = s2\<lparr>va_sessionId := sid, va_anonymousId := JNull, va_isInitialized := False\<rparr>
      in if analytics_defined s3
         then initializeTracking (s3\<lparr>va_anonymousId := JStr (transport_anonymousId (env s3))\<rparr>)
         else (let (r, s4) = random s3 in
               initializeTracking
                 (s4\<lparr>va_anonymousId :=
                       JStr (''anon_'' @ num_text (env s4) (of_int (now_ms (env s4))) @ ''_''
                             @ base36 (env s4) r)\<rparr>)))"

definition initFirstVisit :: "state \<Rightarrow> state" where
  "initFirstVisit s =
     (let s1 = (if \<not> truthy (nullable (getItem ''veed_first_visit'' s))
                then setItem ''veed_first_visit'' (iso (env s) (now_ms (env s))) s else s);
          sessionCount = parse_int (env s1) (text_or (getItem ''veed_session_count'' s1) ''0'')
      in setItem ''veed_session_count''
           (js_text (num_text (env s1)) (num_val (map_option (\<lambda>n. n + 1) sessionCount))) s1)"

text \<open>The \<^verbatim>\<open>DOMContentLoaded\<close> listener of analytics.js.\<close>

definition analytics_onDOMContentLoaded :: "state \<Rightarrow> outcome" where
  "analytics_onDOMContentLoaded s =
     seq VeedAnalytics_constructor (\<lambda>s. ret (initFirstVisit (s\<lparr>va_assigned := True\<rparr>))) s"

definition estimateCompanySize :: "state \<Rightarrow> jsval \<times> state" where
  "estimateCompanySize s = pick [''1-10'', ''11-50'', ''51-200'', ''201-1000'', ''1000+''] s"

definition estimateIndustry :: "state \<Rightarrow> jsval \<times> state" where
  "estimateIndustry s = pick [''Technology'', ''Marketing'', ''Education'', ''Healthcare'', ''Other''] s"

definition accountType :: "jsobj \<Rightarrow> jsval" where
  "accountType userData =
     JStr (if truthy (obj_get userData ''company'') then ''business'' else ''individual'')"

text \<open>
  \<^verbatim>\<open>trackSignup(userData)\<close>.  The argument is an object, or \<open>None\<close> when it is
  missing (\<^verbatim>\<open>undefined\<close>) or \<^verbatim>\<open>null\<close>: then \<^verbatim>\<open>userData.name\<close>, the first
  trait evaluated for \<^verbatim>\<open>analytics.identify\<close>, throws a TypeError.
\<close>

definition trackSignup :: "jsobj option \<Rightarrow> state \<Rightarrow> outcome" where
  "trackSignup userDataArg s =
     (let (generatedUserId, s1) = va_generateRandomUserId s;
          signupTimestamp = iso (env s1) (now_ms (env s1))
      in if \<not> analytics_defined s1 then (Some ReferenceError, s1)
         else case userDataArg of None \<Rightarrow> (Some TypeError, s1)
         | Some userData \<Rightarrow>
         seq (analytics_call (\<lambda>s.
                (Identify (JStr generatedUserId)
                   [(''name'', obj_get userData ''name''),
                    (''email'', obj_get userData ''email''),
                    (''company'', js_or (obj_get userData ''company'') JNull),
                    (''plan'', JStr ''free''),
                    (''createdAt'', JStr signupTimestamp),
                    (''accountType'', accountType userData),
                    (''marketingOptIn'', JBool True),
                    (''isTrial'', JBool False),
                    (''role'', JStr ''user'')], s)))
        (seq (analytics_call (\<lambda>s.
                let (companySize, s2) = estimateCompanySize s;
                    (industry, s3) = estimateIndustry s2
                in (Track ''Signed Up''
                      [(''plan'', JStr ''free''), (''method'', JStr ''email''),
                       (''source'', JStr ''homepage''),
                       (''accountType'', accountType userData),
                       (''companySize'', companySize), (''industry'', industry)], s3)))
             (\<lambda>s. ret
                ((setItem ''veed_user_email'' (js_text (num_text (env s)) (obj_get userData ''email''))
                   (setItem ''veed_user_id'' generatedUserId (s\<lparr>va_userId := JStr generatedUserId\<rparr>)))
                 \<lparr>user_data := Some (json_obj (obj_lit
                     (userData @ [(''userId'', JStr generatedUserId),
                                  (''createdAt'', JStr signupTimestamp)])))\<rparr>)))
        s1)"

text \<open>
  \<^verbatim>\<open>storedUserData.name || email.split('@')[0]\<close>: the right operand is evaluated only
  when the stored name is falsy; it throws a TypeError unless \<^verbatim>\<open>email\<close> is a text
  (\<open>None\<close> stands for that throw).
\<close>

definition login_name :: "jsobj \<Rightarrow> jsval \<Rightarrow> jsval option" where
  "login_name ud email =
     (if truthy (obj_get ud ''name'') then Some (obj_get ud ''name'')
      else case email of JStr e \<Rightarrow> Some (JStr (before_at e)) | _ \<Rightarrow> None)"

text \<open>\<^verbatim>\<open>trackLogin(email, existingUserId = null)\<close>\<close>

definition trackLogin :: "jsval \<Rightarrow> jsval \<Rightarrow> state \<Rightarrow> outcome" where
  "trackLogin email existingUserId s =
     (let storedUserId = js_or (nullable (getItem ''veed_user_id'' s)) existingUserId;
          (userId, s1) = (if truthy storedUserId then (storedUserId, s)
                          else (let (g, s') = va_generateRandomUserId s in (JStr g, s')));
          ud = storedUserData s1;
          currentPlan = text_or (getItem ''user_plan'' s1) ''free'';
          loginCount = map_option (\<lambda>n. n + 1) (getLoginCount s1);
          loginTimestamp = iso (env s1) (now_ms (env s1))
      in if \<not> analytics_defined s1 then (Some ReferenceError, s1)
         else case login_name ud email of None \<Rightarrow> (Some TypeError, s1)
         | Some name \<Rightarrow>
         seq (analytics_call (\<lambda>s.
                let (trial, s2) = (if currentPlan = ''free'' then (JBool False, s) else isTrialUser s)
                in (Identify userId
                      [(''name'', name),
                       (''email'', email),
                       (''company'', js_or (obj_get ud ''company'') JNull),
                       (''plan'', JStr currentPlan),
                       (''createdAt'', js_or (obj_get ud ''createdAt'') (obj_get ud ''signupDate'')),
                       (''lastLogin'', JStr loginTimestamp),
                       (''loginCount'', num_val loginCount),
                       (''role'', js_or (obj_get ud ''role'') (JStr ''user'')),
                       (''isTrial'', trial)], s2)))
        (seq (analytics_call (\<lambda>s.
                let (days, s2) = random_below 7 s;
                    (streak, s3) = random_below 30 s2
                in (Track ''Logged In''
                      [(''method'', JStr ''email''), (''plan'', JStr currentPlan),
                       (''loginCount'', num_val loginCount),
                       (''daysSinceLastLogin'', days), (''loginStreak'', streak)], s3)))
             (\<lambda>s. ret
                (setItem ''login_count'' (js_text (num_text (env s)) (num_val loginCount))
                  (setItem ''last_login_date'' loginTimestamp
                    (setItem ''veed_user_email'' (js_text (num_text (env s)) email)
                      (setItem ''veed_user_id'' (js_text (num_text (env s)) userId)
                        (s\<lparr>va_userId := userId\<rparr>)))))))
        s1)"

text \<open>\<^verbatim>\<open>trackFeatureUsage(featureName, properties = {})\<close>; updateFeatureAdoption is empty.\<close>

definition trackFeatureUsage :: "string \<Rightarrow> jsobj \<Rightarrow> state \<Rightarrow> outcome" where
  "trackFeatureUsage featureName properties s =
     analytics_call (\<lambda>s.
       (Track ''Feature Used'' (obj_lit
          ([(''featureName'', JStr featureName),
            (''featureCategory'', JStr (getFeatureCategory featureName)),
            (''plan'', JStr (if truthy (va_userId s) then getUserPlan s else ''anonymous'')),
            (''featureAvailability'', JStr (getFeatureAvailability s)),
            (''usageContext'', js_or (obj_get properties ''context'') (JStr ''main_interface'')),
            (''isAnonymous'', JBool (\<not> truthy (va_userId s)))] @ properties)), s)) s"

text \<open>
  \<^verbatim>\<open>trackSubscriptionUpgrade(planData)\<close>.  The argument is an object, or \<open>None\<close>
  when it is missing or \<^verbatim>\<open>null\<close>: then \<^verbatim>\<open>planData.plan\<close> in calculateMRR throws
  a TypeError before anything else happens.
\<close>

definition trackSubscriptionUpgrade :: "jsobj option \<Rightarrow> state \<Rightarrow> outcome" where
  "trackSubscriptionUpgrade planDataArg s =
     (case planDataArg of None \<Rightarrow> (Some TypeError, s)
      | Some planData \<Rightarrow>
      let previousPlan = getUserPlan s;
          mrr = calculateMRR (env s) planData;
          billing = js_or (obj_get planData ''billingCycle'') (JStr ''monthly'')
      in seq (analytics_call (\<lambda>s.
                let (trial, s1) = (if obj_get planData ''fromTrial'' = JBool True then (JBool False, s)
                                   else isTrialUser s)
                in (Identify (va_userId s)
                      [(''plan'', obj_get planData ''plan''),
                       (''billingInterval'', billing),
                       (''subscriptionStatus'', JStr ''active''),
                       (''mrr'', JNum mrr),
                       (''isTrial'', trial)], s1)))
        (seq (analytics_call (\<lambda>s.
                let (days, s1) = random_below 30 s
                in (Track ''Subscription Upgraded''
                      [(''previousPlan'', JStr previousPlan),
                       (''newPlan'', obj_get planData ''plan''),
                       (''billingInterval'', billing),
                       (''mrr'', JNum mrr), (''arr'', JNum (mrr * 12)), (''revenue'', JNum mrr),
                       (''currency'', JStr ''USD''),
                       (''method'', js_or (obj_get planData ''method'') (JStr ''credit_card'')),
                       (''trial'', js_or (obj_get planData ''fromTrial'') (JBool False)),
                       (''upgradeReason'',
                          js_or (obj_get planData ''reason'') (JStr ''feature_limitation'')),
                       (''daysSinceSignup'', days)], s1)))
             (\<lambda>s. ret (setItem ''user_plan''
                           (js_text (num_text (env s)) (obj_get planData ''plan'')) s)))
        s)"

text \<open>
  \<^verbatim>\<open>trackOnboardingMilestone\<close>: the property map is a constant built before the call
  to \<^verbatim>\<open>analytics.track\<close>, so its random draws happen whether or not the call throws.
\<close>

definition trackOnboardingMilestone :: "string \<Rightarrow> state \<Rightarrow> outcome" where
  "trackOnboardingMilestone milestone s =
     (let (days, s1) = random_below 30 s;
          (completion, s2) = random_below 300 s1;
          (risk, s3) = random s2;
          (score, s4) = random s3;
          (rate, s5) = random s4;
          milestoneProperties =
            [(''user_id'', va_userId s),
             (''milestone'', JStr milestone),
             (''session_id'', JStr (va_sessionId s)),
             (''milestone_timestamp'', JStr (iso (env s) (now_ms (env s)))),
             (''days_since_signup'', days),
             (''onboarding_version'', JStr ''v2.1''),
             (''previous_milestones'', JArr (map JStr (getCompletedMilestones s))),
             (''milestone_completion_time'', completion),
             (''drop_off_risk'', JNum risk),
             (''engagement_score'', JNum score),
             (''feature_discovery_rate'', JNum rate)]
      in seq (analytics_call (\<lambda>s. (Track ''Onboarding Milestone Completed'' milestoneProperties, s)))
             (\<lambda>s. ret (updateOnboardingProgress milestone s)) s5)"

text \<open>\<^verbatim>\<open>window.trackPlanSelection\<close>\<close>

definition trackPlanSelection :: "string \<Rightarrow> state \<Rightarrow> outcome" where
  "trackPlanSelection plan s =
     (if va_assigned s
      then analytics_call (\<lambda>s.
             (Track ''Plan Selected''
                [(''plan_name'', JStr plan), (''selection_source'', JStr ''pricing_page''),
                 (''user_id'', va_userId s), (''session_id'', JStr (va_sessionId s))], s)) s
      else ret s)"

section \<open>VeedApp (main.js)\<close>

text \<open>\<^verbatim>\<open>this.currentUser?.email\<close>\<close>

definition currentUser_email :: "state \<Rightarrow> jsval" where
  "currentUser_email s = (case app_currentUser s of None \<Rightarrow> JUndefined | Some u \<Rightarrow> obj_get u ''email'')"

text \<open>
  The callback that \<^verbatim>\<open>performSignup\<close> hands to \<^verbatim>\<open>setTimeout\<close>.  What follows the
  tracking call only touches the page (modals, notifications) and arms the onboarding timer.
\<close>

definition performSignup :: "jsobj \<Rightarrow> state \<Rightarrow> outcome" where
  "performSignup userData s =
     (let (userId, s1) = (if va_assigned s then va_generateRandomUserId s
                          else vapp_generateRandomUserId s);
          userDataWithId = obj_lit
            (userData @ [(''signupDate'', JStr (iso (env s1) (now_ms (env s1)))),
                         (''plan'', JStr ''free''), (''userId'', JStr userId)]);
          s2 = setItem ''user_plan'' ''free''
                 (s1\<lparr>app_currentUser := Some userDataWithId,
                     user_data := Some (json_obj userDataWithId)\<rparr>)
      in if va_assigned s2 then trackSignup (Some userDataWithId) s2 else ret s2)"

text \<open>The callback that \<^verbatim>\<open>performLogin\<close> hands to \<^verbatim>\<open>setTimeout\<close>.\<close>

definition performLogin :: "string \<Rightarrow> state \<Rightarrow> outcome" where
  "performLogin email s =
     (let existingUserData = storedUserData s;
          (userId, s1) =
            (if truthy (obj_get existingUserData ''userId'')
             then (obj_get existingUserData ''userId'', s)
             else (let (g, s') = (if va_assigned s then va_generateRandomUserId s
                                  else vapp_generateRandomUserId s)
                   in (JStr g, s')));
          currentUser =
            [(''email'', JStr email),
             (''name'', js_or (obj_get existingUserData ''name'') (JStr (before_at email))),
             (''loginDate'', JStr (iso (env s1) (now_ms (env s1)))),
             (''userId'', userId),
             (''company'', js_or (obj_get existingUserData ''company'') JNull)];
          s2 = s1\<lparr>app_currentUser := Some currentUser, user_data := Some (json_obj currentUser)\<rparr>
      in if va_assigned s2 then trackLogin (JStr email) userId s2 else ret s2)"

definition showOnboardingTooltip :: "state \<Rightarrow> outcome" where
  "showOnboardingTooltip s =
     (if va_assigned s
      then analytics_call (\<lambda>s.
             (Track ''Onboarding Tooltip Shown''
                [(''user_id'', currentUser_email s),
                 (''tooltip_type'', JStr ''welcome_message''), (''step'', JNum 1)], s)) s
      else ret s)"

text \<open>The callback armed by \<^verbatim>\<open>startOnboardingFlow\<close>.\<close>

definition startOnboardingFlow :: "state \<Rightarrow> outcome" where
  "startOnboardingFlow s =
     seq (\<lambda>s. if va_assigned s then trackOnboardingMilestone ''account_created'' s else ret s)
         showOnboardingTooltip s"

definition showSignupModal :: "state \<Rightarrow> outcome" where
  "showSignupModal s =
     analytics_call (\<lambda>s. (Track ''Signup Modal Opened'' [(''source'', JStr ''conversion_prompt'')], s)) s"

text \<open>\<^verbatim>\<open>selectPlan\<close>; showUpgradeModal only builds the modal.\<close>

definition selectPlan :: "string \<Rightarrow> state \<Rightarrow> outcome" where
  "selectPlan planType s =
     seq (\<lambda>s. if va_assigned s then trackPlanSelection planType s else ret s)
       (\<lambda>s. if planType = ''free'' then ret s
             else seq (analytics_call (\<lambda>s.
                         (Track ''Upgrade Intent''
                            [(''user_id'', currentUser_email s),
                             (''target_plan'', JStr planType),
                             (''current_plan'', JStr (app_currentPlan s)),
                             (''upgrade_source'', JStr ''pricing_page'')], s)))
                    (\<lambda>s. if app_currentUser s = None
                          then seq showSignupModal
                                 (analytics_call (\<lambda>s.
                                    (Track ''Signup Prompted''
                                       [(''trigger'', JStr ''plan_selection''),
                                        (''target_plan'', JStr planType)], s))) s
                          else ret s) s)
       s"

text \<open>\<^verbatim>\<open>showUpgradePrompt\<close>; \<open>confirmed\<close> is the user's answer to the \<^verbatim>\<open>confirm\<close> dialog.\<close>

definition showUpgradePrompt :: "string \<Rightarrow> bool \<Rightarrow> state \<Rightarrow> outcome" where
  "showUpgradePrompt reason confirmed s =
     seq (analytics_call (\<lambda>s.
            (Track ''Upgrade Prompt Shown''
               [(''user_id'', currentUser_email s),
                (''reason'', JStr reason),
                (''current_plan'', JStr (app_currentPlan s))], s)))
         (\<lambda>s. if confirmed
               then selectPlan (if reason = ''collaboration'' then ''business'' else ''pro'') s
               else ret s)
         s"

text \<open>\<^verbatim>\<open>openEditor\<close>; \<open>modal\<close> says whether the page has the editor modal.\<close>

definition openEditor :: "bool \<Rightarrow> state \<Rightarrow> outcome" where
  "openEditor modal s =
     (if modal
      then analytics_call (\<lambda>s.
             (Track ''Editor Opened''
                [(''user_id'', currentUser_email s),
                 (''session_id'', (if va_assigned s then JStr (va_sessionId s) else JUndefined)),
                 (''user_plan'', JStr (app_currentPlan s)),
                 (''projects_created'', JNum (of_int (app_projectCount s)))], s)) s
      else ret s)"

text \<open>
  The callback that \<^verbatim>\<open>processUpgrade\<close> hands to \<^verbatim>\<open>setTimeout\<close>;
  \<open>billingCycle\<close> is the value of the checked radio button.
\<close>

definition processUpgrade :: "string \<Rightarrow> string \<Rightarrow> state \<Rightarrow> outcome" where
  "processUpgrade planType billingCycle s =
     (let upgradeData = [(''plan'', JStr planType), (''billingCycle'', JStr billingCycle),
                         (''method'', JStr ''upgrade_modal''), (''fromTrial'', JBool False)];
          s1 = setItem ''user_plan'' planType (s\<lparr>app_currentPlan := planType\<rparr>)
      in seq (\<lambda>s. if va_assigned s then trackSubscriptionUpgrade (Some upgradeData) s else ret s)
             (analytics_call (\<lambda>s.
                (Track ''Conversion Completed''
                   [(''user_id'', currentUser_email s),
                    (''plan'', JStr planType),
                    (''billing_cycle'', JStr billingCycle),
                    (''conversion_value'', JNum (if planType = ''pro'' then 24 else 59)),
                    (''conversion_type'', JStr ''freemium_to_paid'')], s)))
             s1)"

definition logout :: "state \<Rightarrow> outcome" where
  "logout s =
     seq (analytics_call (\<lambda>s.
            (Track ''Logged Out''
               [(''sessionDuration'', JNum (of_int (now_ms (env s) - app_sessionStartTime s))),
                (''plan'', JStr (app_currentPlan s))], s)))
       (seq (analytics_call (\<lambda>s. (Reset, s)))
            (\<lambda>s. ret
               (removeItem ''user_plan''
                 (removeItem ''veed_user_email''
                   (removeItem ''veed_user_id''
                     (removeItem ''veed_user_data''
                       (s\<lparr>app_currentUser := None, app_currentPlan := ''free''\<rparr>)))))))
       s"

section \<open>What a call carries\<close>

text \<open>The user ids handed to \<^verbatim>\<open>analytics.identify\<close>, in order.\<close>

fun identified_ids :: "call list \<Rightarrow> jsval list" where
  "identified_ids [] = []"
| "identified_ids (Identify uid traits # cs) = uid # identified_ids cs"
| "identified_ids (c # cs) = identified_ids cs"

text \<open>The calls to \<^verbatim>\<open>analytics.track\<close> with a given event name, as their property maps.\<close>

definition tracked :: "string \<Rightarrow> call list \<Rightarrow> jsobj list" where
  "tracked name cs = [props. Track n props \<leftarrow> cs, n = name]"

text \<open>The value each of these property maps gives to one key.\<close>

definition prop_values :: "string \<Rightarrow> jsobj list \<Rightarrow> jsval list" where
  "prop_values k ps = map (\<lambda>p. obj_get p k) ps"

text \<open>The keys that name an identity inside a property map.\<close>

definition identity_keys :: "string set" where
  "identity_keys = {''userId'', ''anonymousId'', ''user_id'', ''anonymous_id''}"

section \<open>The transport's bound identity\<close>

text \<open>
  Modelled from the spec: the transport, the third-party tracking library behind the
  global \<^verbatim>\<open>analytics\<close>, is not part of the repository, and no call to
  \<^verbatim>\<open>analytics.track\<close> or \<^verbatim>\<open>analytics.page\<close> in the source passes an identity.
  The specification (sections 3, 4.1 and 6) gives the transport one piece of state, the
  identity bound to the session: \<^verbatim>\<open>identify(userId, traits)\<close> binds the user id it is
  given, \<^verbatim>\<open>reset()\<close> discards it and begins a new anonymous period, and a page or
  track call is tagged with whatever identity currently holds.  \<open>None\<close> is the anonymous
  identity.
\<close>

fun transport_step :: "jsval option \<Rightarrow> call \<Rightarrow> jsval option" where
  "transport_step bound (Identify uid traits) = Some uid"
| "transport_step bound Reset = None"
| "transport_step bound (Page n props) = bound"
| "transport_step bound (Track n props) = bound"

text \<open>
  Modelled from the spec: the calls of a log as the transport delivers them, each paired
  with the identity it is attributed to (for an identify call, the identity it binds).
\<close>

fun attributed :: "jsval option \<Rightarrow> call list \<Rightarrow> (jsval option \<times> call) list" where
  "attributed bound [] = []"
| "attributed bound (c # cs) =
     (transport_step bound c, c) # attributed (transport_step bound c) cs"

text \<open>Modelled from the spec: the identity bound once the transport has taken a log.\<close>

definition bound_after :: "jsval option \<Rightarrow> call list \<Rightarrow> jsval option" where
  "bound_after bound cs = foldl transport_step bound cs"

text \<open>The identities to which the track calls of a log are attributed, in order.\<close>

definition track_attributions :: "jsval option \<Rightarrow> call list \<Rightarrow> jsval option list" where
  "track_attributions bound cs = [who. (who, Track n props) \<leftarrow> attributed bound cs]"

text \<open>The calls that change the bound identity.\<close>

fun rebinds :: "call \<Rightarrow> bool" where
  "rebinds (Identify uid traits) = True"
| "rebinds Reset = True"
| "rebinds (Page n props) = False"
| "rebinds (Track n props) = False"

section \<open>A first visit\<close>

text \<open>
  A browser that has never seen the site: empty \<^verbatim>\<open>localStorage\<close>, nothing constructed
  yet.  Draw number \<open>n\<close> returns \<open>(n mod 36) / 36\<close>, so that successive draws differ;
  the library conversions are left trivial.
\<close>

definition demo_env :: env where
  "demo_env = \<lparr> rnd = (\<lambda>n. real (n mod 36) / 36), now_ms = 1000, iso = (\<lambda>t. ''2024-01-15T10:30:00Z''),
                 num_text = (\<lambda>r. ''0''), parse_int = (\<lambda>t. Some 0), base36 = (\<lambda>r. ''i''),
                 href = ''https://veed.example/'', pathname = ''/'', referrer = [],
                 title = ''VEED'', userAgent = ''Chrome'', screenWidth = 1280,
                 screenHeight = 720, transport_anonymousId = ''anon-1'' \<rparr>"

definition first_visit :: "bool \<Rightarrow> state" where
  "first_visit loaded =
     \<lparr> env = demo_env, rpos = 0, analytics_defined = loaded, calls = [],
       plain = Map.empty, user_data = None, onboarding_milestones = None,
       va_assigned = False, va_userId = JNull, va_sessionId = [], va_anonymousId = JNull,
       va_isInitialized = False, va_listening = False,
       app_currentUser = None, app_currentPlan = ''free'', app_projectCount = 0,
       app_sessionStartTime = 1000 \<rparr>"

definition ann :: jsobj where
  "ann = [(''name'', JStr ''Ann''), (''email'', JStr ''ann@x.io''),
          (''password'', JStr ''secret1''), (''company'', JStr [])]"

text \<open>The page once analytics.js has run its \<^verbatim>\<open>DOMContentLoaded\<close> listener.\<close>

definition loaded_page :: state where
  "loaded_page = snd (analytics_onDOMContentLoaded (first_visit True))"

text \<open>The visitor then signs up through the form.\<close>

definition signed_up :: state where
  "signed_up = snd (performSignup ann loaded_page)"

text \<open>The onboarding timer has fired as well.\<close>

definition onboarded :: state where
  "onboarded = snd (startOnboardingFlow signed_up)"

section \<open>Properties of generateRandomUserId\<close>

lemma charAt_characters:
  assumes "0 \<le> r" "r < 1"
  shows "\<exists>c. charAt characters \<lfloor>r * real (length characters)\<rfloor> = [c] \<and> c \<in> set characters"
proof -
  let ?n = "length characters"
  let ?i = "\<lfloor>r * real ?n\<rfloor>"
  have n: "0 < ?n" by (simp add: characters_def)
  have lo: "0 \<le> ?i" using assms(1) by simp
  have "r * real ?n < real ?n" using assms(2) n by simp
  then have hi: "?i < int ?n" by (simp add: floor_less_iff)
  from lo hi have "nat ?i < ?n" by linarith
  then have "characters ! nat ?i \<in> set characters" by (rule nth_mem)
  with lo hi show ?thesis by (simp add: charAt_def)
qed

lemma userIdLoop_shape:
  assumes "unit_draws draws"
  shows "length (fst (userIdLoop k draws p acc)) = length acc + k
         \<and> set (fst (userIdLoop k draws p acc)) \<subseteq> set acc \<union> set characters
         \<and> snd (userIdLoop k draws p acc) = p + k"
proof (induction k arbitrary: p acc)
  case 0
  show ?case by simp
next
  case (Suc k)
  from assms have "0 \<le> draws p" "draws p < 1" by (simp_all add: unit_draws_def)
  then obtain c where c: "charAt characters \<lfloor>draws p * real (length characters)\<rfloor> = [c]"
    and cin: "c \<in> set characters"
    using charAt_characters by blast
  from Suc.IH [of "Suc p" "acc @ [c]"] cin show ?case
    by (auto simp: c)
qed

text \<open>
  C9.  Whatever the random draws (each in [0, 1)), both copies of generateRandomUserId
  return a string of exactly five characters, each one of the 36 characters A-Z, 0-9.
\<close>

theorem generateRandomUserId_five_alphanumeric:
  assumes "unit_draws draws"
  shows "length (fst (generateRandomUserId draws p)) = 5
         \<and> set (fst (generateRandomUserId draws p)) \<subseteq> set characters
         \<and> length (fst (app_generateRandomUserId draws p)) = 5
         \<and> set (fst (app_generateRandomUserId draws p)) \<subseteq> set characters
         \<and> length characters = 36
         \<and> characters = ''ABCDEFGHIJKLMNOPQRSTUVWXYZ'' @ ''0123456789''"
proof -
  have "length characters = 36" by (simp add: characters_def)
  moreover have "characters = ''ABCDEFGHIJKLMNOPQRSTUVWXYZ'' @ ''0123456789''"
    by (simp add: characters_def)
  ultimately show ?thesis
    using userIdLoop_shape [OF assms, of 5 p "[]"]
    by (simp add: generateRandomUserId_def app_generateRandomUserId_def)
qed

theorem generateRandomUserId_five_alphanumeric_witness:
  "unit_draws (\<lambda>n. 1 / 2)
   \<and> fst (generateRandomUserId (\<lambda>n. 1 / 2) 0) = ''SSSSS''
   \<and> length (fst (generateRandomUserId (\<lambda>n. 1 / 2) 0)) = 5
   \<and> set (fst (generateRandomUserId (\<lambda>n. 1 / 2) 0)) \<subseteq> set characters"
proof -
  have u: "unit_draws (\<lambda>n. 1 / 2)" by (simp add: unit_draws_def)
  have e: "fst (generateRandomUserId (\<lambda>n. 1 / 2) 0) = ''SSSSS''"
    by (simp add: generateRandomUserId_def eval_nat_numeral charAt_def characters_def)
  from u e generateRandomUserId_five_alphanumeric [OF u, of 0] show ?thesis by simp
qed

section \<open>Scroll-depth milestones fire once\<close>

lemma scrolled_inj: "(scrolled a = scrolled b) = (a = b)"
  by (simp add: scrolled_def)

lemma onScrollSample_silent:
  "d \<le> maxScrollDepth v \<Longrightarrow> onScrollSample d v = ([], v)"
  by (simp add: onScrollSample_def)

lemma onScrollSample_flags_kept:
  "fired25 v \<Longrightarrow> fired25 (snd (onScrollSample d v))"
  "fired50 v \<Longrightarrow> fired50 (snd (onScrollSample d v))"
  "fired75 v \<Longrightarrow> fired75 (snd (onScrollSample d v))"
  "fired100 v \<Longrightarrow> fired100 (snd (onScrollSample d v))"
  by (simp_all add: onScrollSample_def Let_def)

lemma onScrollSample_fired_mono:
  "fired v m \<Longrightarrow> fired (snd (onScrollSample d v)) m"
  unfolding fired_def
  by (auto simp: onScrollSample_flags_kept split: if_splits)

lemma fired_simps:
  "fired v ''25%'' = fired25 v" "fired v ''50%'' = fired50 v"
  "fired v ''75%'' = fired75 v" "fired v ''100%'' = fired100 v"
  by (simp_all add: fired_def)

lemma onScrollSample_emits:
  "fst (onScrollSample d v) = []
   \<or> (fst (onScrollSample d v) = [scrolled ''25%''] \<and> \<not> fired25 v
        \<and> fired25 (snd (onScrollSample d v)))
   \<or> (fst (onScrollSample d v) = [scrolled ''50%''] \<and> \<not> fired50 v
        \<and> fired50 (snd (onScrollSample d v)))
   \<or> (fst (onScrollSample d v) = [scrolled ''75%''] \<and> \<not> fired75 v
        \<and> fired75 (snd (onScrollSample d v)))
   \<or> (fst (onScrollSample d v) = [scrolled ''100%''] \<and> \<not> fired100 v
        \<and> fired100 (snd (onScrollSample d v)))"
  by (simp add: onScrollSample_def Let_def)

lemma onScrollSample_not_refired:
  "fired v m \<Longrightarrow> scrolled m \<notin> set (fst (onScrollSample d v))"
  using onScrollSample_emits [of d v]
  by (auto simp: fired_def scrolled_inj split: if_splits)

lemma onScrollSample_sets_flag:
  assumes "c \<in> set (fst (onScrollSample d v))"
  shows "\<exists>m. c = scrolled m \<and> fired (snd (onScrollSample d v)) m
             \<and> fst (onScrollSample d v) = [c]"
  using onScrollSample_emits [of d v] assms fired_simps [of "snd (onScrollSample d v)"]
  by (elim disjE) auto

lemma scrollSession_unfold:
  "scrollSession (d # ds) v =
     (fst (onScrollSample d v) @ fst (scrollSession ds (snd (onScrollSample d v))),
      snd (scrollSession ds (snd (onScrollSample d v))))"
  by (simp add: split_def Let_def)

lemma scrollSession_fired_mono:
  "fired v m \<Longrightarrow> fired (snd (scrollSession ds v)) m"
proof (induction ds arbitrary: v)
  case Nil
  then show ?case by simp
next
  case (Cons d ds)
  from Cons.prems have "fired (snd (onScrollSample d v)) m" by (rule onScrollSample_fired_mono)
  then have "fired (snd (scrollSession ds (snd (onScrollSample d v)))) m" by (rule Cons.IH)
  then show ?case by (simp only: scrollSession_unfold snd_conv)
qed

lemma scrollSession_not_refired:
  "fired v m \<Longrightarrow> scrolled m \<notin> set (fst (scrollSession ds v))"
proof (induction ds arbitrary: v)
  case Nil
  then show ?case by simp
next
  case (Cons d ds)
  have a: "scrolled m \<notin> set (fst (onScrollSample d v))"
    using Cons.prems by (rule onScrollSample_not_refired)
  from Cons.prems have "fired (snd (onScrollSample d v)) m" by (rule onScrollSample_fired_mono)
  then have b: "scrolled m \<notin> set (fst (scrollSession ds (snd (onScrollSample d v))))"
    by (rule Cons.IH)
  from a b show ?case by (simp only: scrollSession_unfold fst_conv set_append Un_iff) simp
qed

lemma scrollSession_distinct: "distinct (fst (scrollSession ds v))"
proof (induction ds arbitrary: v)
  case Nil
  show ?case by simp
next
  case (Cons d ds)
  let ?cs = "fst (onScrollSample d v)"
  let ?v1 = "snd (onScrollSample d v)"
  have d1: "distinct ?cs"
  proof (cases "?cs")
    case Nil
    then show ?thesis by simp
  next
    case (Cons c cs')
    then have "c \<in> set ?cs" by simp
    from onScrollSample_sets_flag [OF this] show ?thesis by auto
  qed
  have d2: "distinct (fst (scrollSession ds ?v1))" by (rule Cons.IH)
  have d3: "set ?cs \<inter> set (fst (scrollSession ds ?v1)) = {}"
  proof -
    { fix c assume c: "c \<in> set ?cs"
      from onScrollSample_sets_flag [OF c] obtain m where "c = scrolled m" "fired ?v1 m" by blast
      then have "c \<notin> set (fst (scrollSession ds ?v1))" by (simp add: scrollSession_not_refired) }
    then show ?thesis by blast
  qed
  from d1 d2 d3 show ?case by (simp only: scrollSession_unfold fst_conv distinct_append simp_thms)
qed

lemma distinct_count_le_1: "distinct xs \<Longrightarrow> count_list xs x \<le> 1"
  by (induction xs) (auto simp: count_list_0_iff)

lemma scrollSession_milestones_only:
  "set (fst (scrollSession ds v)) \<subseteq> set (map scrolled milestones)"
proof (induction ds arbitrary: v)
  case Nil
  show ?case by simp
next
  case (Cons d ds)
  have "set (fst (onScrollSample d v)) \<subseteq> set (map scrolled milestones)"
    using onScrollSample_emits [of d v] by (auto simp: milestones_def)
  with Cons.IH [of "snd (onScrollSample d v)"] show ?case
    by (simp only: scrollSession_unfold fst_conv set_append Un_subset_iff simp_thms)
qed

text \<open>
  C5.  For every sequence of samples and every state of the flags, each milestone event
  occurs at most once among the events fired, only the four milestones fire, and a
  milestone whose flag is set is not fired again and keeps its flag.
\<close>

theorem scroll_milestones_fire_at_most_once:
  "count_list (fst (scrollSession ds v)) (scrolled m) \<le> 1
   \<and> set (fst (scrollSession ds v)) \<subseteq> set (map scrolled milestones)
   \<and> (fired v m \<longrightarrow> scrolled m \<notin> set (fst (scrollSession ds v))
                    \<and> fired (snd (scrollSession ds v)) m)"
  using distinct_count_le_1 [OF scrollSession_distinct, of ds v "scrolled m"]
    scrollSession_milestones_only [of ds v]
  by (simp add: scrollSession_not_refired scrollSession_fired_mono)

theorem scroll_milestones_fire_at_most_once_witness:
  "fired (snd (scrollSession [0.30] scroll_init)) ''25%''
   \<and> fst (scrollSession [0.30] scroll_init) = [scrolled ''25%'']
   \<and> scrolled ''25%'' \<notin> set (fst (scrollSession [0.20, 0.60, 0.10, 0.30]
                                     (snd (scrollSession [0.30] scroll_init))))
   \<and> count_list (fst (scrollSession [0.20, 0.60, 0.10, 0.30]
                        (snd (scrollSession [0.30] scroll_init)))) (scrolled ''25%'') \<le> 1"
proof -
  have a: "fired (snd (scrollSession [0.30] scroll_init)) ''25%''"
    by (simp add: onScrollSample_def scroll_init_def Let_def fired_def)
  have b: "fst (scrollSession [0.30] scroll_init) = [scrolled ''25%'']"
    by (simp add: onScrollSample_def scroll_init_def Let_def)
  from a b scroll_milestones_fire_at_most_once
    [of "[0.20, 0.60, 0.10, 0.30]" "snd (scrollSession [0.30] scroll_init)" "''25%''"]
  show ?thesis by blast
qed

section \<open>The scroll sequence of the specification\<close>

text \<open>
  C4 as stated fails: the samples 10%, 30%, 20%, 60%, 90% do not fire four events.
\<close>

theorem scroll_sequence_not_four_events:
  "length (fst (scrollSession [0.10, 0.30, 0.20, 0.60, 0.90] scroll_init)) \<noteq> 4"
  by (simp add: onScrollSample_def scroll_init_def Let_def)

lemma onScrollSample_100_needs_95:
  "scrolled ''100%'' \<in> set (fst (onScrollSample d v)) \<Longrightarrow> 0.95 \<le> d"
  by (simp add: onScrollSample_def Let_def scrolled_inj split: if_splits)

lemma scrollSession_100_needs_95:
  "scrolled ''100%'' \<in> set (fst (scrollSession ds v)) \<Longrightarrow> \<exists>d\<in>set ds. 0.95 \<le> d"
proof (induction ds arbitrary: v)
  case Nil
  then show ?case by simp
next
  case (Cons d ds)
  from Cons.prems have
    "scrolled ''100%'' \<in> set (fst (onScrollSample d v))
     \<or> scrolled ''100%'' \<in> set (fst (scrollSession ds (snd (onScrollSample d v))))"
    by (simp only: scrollSession_unfold fst_conv set_append Un_iff)
  then show ?case
  proof
    assume "scrolled ''100%'' \<in> set (fst (onScrollSample d v))"
    then have "0.95 \<le> d" by (rule onScrollSample_100_needs_95)
    then show ?thesis by simp
  next
    assume "scrolled ''100%'' \<in> set (fst (scrollSession ds (snd (onScrollSample d v))))"
    then have "\<exists>e\<in>set ds. 0.95 \<le> e" by (rule Cons.IH)
    then show ?thesis by auto
  qed
qed

text \<open>
  C4, amended.  The samples 10%, 30%, 20%, 60%, 90% fire exactly three milestone events,
  25%, 50% and 75%, in ascending order and without repetition; the 100% milestone needs
  a depth of at least 95%: in any session, from any state of the flags, it fires only if
  some sample reaches 0.95.
\<close>

theorem scroll_sequence_fires_three_events:
  "fst (scrollSession [0.10, 0.30, 0.20, 0.60, 0.90] scroll_init)
   = [scrolled ''25%'', scrolled ''50%'', scrolled ''75%'']
   \<and> (scrolled ''100%'' \<in> set (fst (scrollSession ds v)) \<longrightarrow> (\<exists>d\<in>set ds. 0.95 \<le> d))"
proof -
  have "fst (scrollSession [0.10, 0.30, 0.20, 0.60, 0.90] scroll_init)
        = [scrolled ''25%'', scrolled ''50%'', scrolled ''75%'']"
    by (simp add: onScrollSample_def scroll_init_def Let_def)
  then show ?thesis using scrollSession_100_needs_95 [of ds v] by blast
qed

theorem scroll_sequence_fires_three_events_witness:
  "fst (scrollSession [0.30, 0.60, 0.80, 0.96] scroll_init)
   = [scrolled ''25%'', scrolled ''50%'', scrolled ''75%'', scrolled ''100%'']
   \<and> scrolled ''100%'' \<in> set (fst (scrollSession [0.30, 0.60, 0.80, 0.96] scroll_init))
   \<and> (0.95::real) \<le> 0.96
   \<and> length (fst (scrollSession [0.10, 0.30, 0.20, 0.60, 0.90] scroll_init)) = 3"
proof -
  have a: "fst (scrollSession [0.30, 0.60, 0.80, 0.96] scroll_init)
           = [scrolled ''25%'', scrolled ''50%'', scrolled ''75%'', scrolled ''100%'']"
    by (simp add: onScrollSample_def scroll_init_def Let_def)
  then have b: "scrolled ''100%'' \<in> set (fst (scrollSession [0.30, 0.60, 0.80, 0.96] scroll_init))"
    by simp
  from a b scroll_sequence_fires_three_events [of "[0.30, 0.60, 0.80, 0.96]" scroll_init]
  show ?thesis by simp
qed

section \<open>Onboarding milestones\<close>

lemma updateOnboardingProgress_twice:
  "updateOnboardingProgress m (updateOnboardingProgress m s) = updateOnboardingProgress m s"
  by (cases "m \<in> set (getCompletedMilestones s)")
     (simp_all add: updateOnboardingProgress_def getCompletedMilestones_def Let_def split_def)

lemma updateOnboardingProgress_distinct:
  "distinct (getCompletedMilestones s) \<Longrightarrow>
   distinct (getCompletedMilestones (updateOnboardingProgress m s))"
  by (simp add: updateOnboardingProgress_def getCompletedMilestones_def Let_def split_def)

lemma fold_updateOnboardingProgress_distinct:
  "distinct (getCompletedMilestones s) \<Longrightarrow>
   distinct (getCompletedMilestones (fold updateOnboardingProgress ms s))"
proof (induction ms arbitrary: s)
  case Nil
  then show ?case by simp
next
  case (Cons m ms)
  from Cons.prems have "distinct (getCompletedMilestones (updateOnboardingProgress m s))"
    by (rule updateOnboardingProgress_distinct)
  then show ?case using Cons.IH by simp
qed

lemma updateOnboardingProgress_count:
  "count_list (getCompletedMilestones (updateOnboardingProgress m s)) x
   = (if x = m \<and> m \<notin> set (getCompletedMilestones s) then 1
      else count_list (getCompletedMilestones s) x)"
  by (cases "m \<in> set (getCompletedMilestones s)")
     (simp_all add: updateOnboardingProgress_def getCompletedMilestones_def Let_def
        count_list_0_iff)

text \<open>
  C10 as stated fails for a store that already holds a duplicate: the list keeps it.
\<close>

theorem stored_duplicate_is_kept:
  "\<not> distinct (getCompletedMilestones
       (updateOnboardingProgress ''account_created''
          ((first_visit True)
             \<lparr>onboarding_milestones := Some [''account_created'', ''account_created'']\<rparr>)))"
  by (simp add: updateOnboardingProgress_def getCompletedMilestones_def Let_def)

text \<open>
  C10, amended.  For every starting store and every milestone name,
  updateOnboardingProgress is idempotent, and it never adds a duplicate: it appends the
  milestone once when the list lacks it and otherwise leaves every entry's number of
  occurrences as it was.  So a duplicate-free list stays duplicate-free, and every list
  built from a store without the key is duplicate-free; duplicates already in the store
  are kept.
\<close>

theorem updateOnboardingProgress_idempotent:
  "updateOnboardingProgress m (updateOnboardingProgress m s) = updateOnboardingProgress m s
   \<and> count_list (getCompletedMilestones (updateOnboardingProgress m s)) x
     = (if x = m \<and> m \<notin> set (getCompletedMilestones s) then 1
        else count_list (getCompletedMilestones s) x)
   \<and> (distinct (getCompletedMilestones s) \<longrightarrow>
        distinct (getCompletedMilestones (updateOnboardingProgress m s)))
   \<and> (onboarding_milestones s = None \<longrightarrow>
        distinct (getCompletedMilestones (fold updateOnboardingProgress ms s)))"
proof -
  have "onboarding_milestones s = None \<Longrightarrow> distinct (getCompletedMilestones s)"
    by (simp add: getCompletedMilestones_def)
  then show ?thesis
    using updateOnboardingProgress_twice [of m s] updateOnboardingProgress_distinct [of s m]
      fold_updateOnboardingProgress_distinct [of s ms] updateOnboardingProgress_count [of m s x]
    by blast
qed

theorem updateOnboardingProgress_idempotent_witness:
  "onboarding_milestones (first_visit True) = None
   \<and> distinct (getCompletedMilestones (first_visit True))
   \<and> getCompletedMilestones (updateOnboardingProgress ''account_created''
        (updateOnboardingProgress ''account_created'' (first_visit True))) = [''account_created'']
   \<and> distinct (getCompletedMilestones
        (fold updateOnboardingProgress
           [''account_created'', ''first_project_created'', ''account_created'']
           (first_visit True)))"
proof -
  have a: "onboarding_milestones (first_visit True) = None" by (simp add: first_visit_def)
  have b: "distinct (getCompletedMilestones (first_visit True))"
    by (simp add: getCompletedMilestones_def first_visit_def)
  have c: "getCompletedMilestones (updateOnboardingProgress ''account_created'' (first_visit True))
           = [''account_created'']"
    by (simp add: updateOnboardingProgress_def getCompletedMilestones_def first_visit_def)
  from a b c updateOnboardingProgress_idempotent
    [of "''account_created''" "first_visit True" "''account_created''"
        "[''account_created'', ''first_project_created'', ''account_created'']"]
  show ?thesis by simp
qed

section \<open>The operations when the transport is loaded\<close>

lemma identified_ids_append: "identified_ids (xs @ ys) = identified_ids xs @ identified_ids ys"
  by (induction xs rule: identified_ids.induct) simp_all

lemma trackSubscriptionUpgrade_loaded:
  assumes "analytics_defined s"
  shows "fst (trackSubscriptionUpgrade (Some planData) s) = None
         \<and> identified_ids (calls (snd (trackSubscriptionUpgrade (Some planData) s)))
           = identified_ids (calls s) @ [va_userId s]"
proof (cases "obj_get planData ''fromTrial'' = JBool True")
  case True
  with assms show ?thesis
    by (simp add: trackSubscriptionUpgrade_def seq_def analytics_call_def ret_def Let_def split_def
        random_below_def random_def setItem_def identified_ids_append)
next
  case False
  with assms show ?thesis
    by (simp add: trackSubscriptionUpgrade_def seq_def analytics_call_def ret_def Let_def split_def
        isTrialUser_def random_below_def random_def setItem_def identified_ids_append)
qed

lemma trackSignup_loaded:
  assumes "analytics_defined s"
  shows "fst (trackSignup (Some userData) s) = None
         \<and> identified_ids (calls (snd (trackSignup (Some userData) s)))
           = identified_ids (calls s) @ [JStr (fst (va_generateRandomUserId s))]
         \<and> plain (snd (trackSignup (Some userData) s)) ''veed_user_id''
           = Some (fst (va_generateRandomUserId s))"
  using assms
  by (simp add: trackSignup_def seq_def analytics_call_def ret_def Let_def split_def
        va_generateRandomUserId_def estimateCompanySize_def estimateIndustry_def
        pick_def random_def setItem_def identified_ids_append)

lemma login_name_text:
  "login_name ud (JStr e) = Some (js_or (obj_get ud ''name'') (JStr (before_at e)))"
  by (simp add: login_name_def js_or_def)

lemma trackLogin_loaded:
  assumes "analytics_defined s"
  shows "fst (trackLogin (JStr email) existingUserId s) = None
         \<and> identified_ids (calls (snd (trackLogin (JStr email) existingUserId s)))
           = identified_ids (calls s) @
             [if truthy (js_or (nullable (getItem ''veed_user_id'' s)) existingUserId)
              then js_or (nullable (getItem ''veed_user_id'' s)) existingUserId
              else JStr (fst (va_generateRandomUserId s))]"
proof (cases "truthy (js_or (nullable (getItem ''veed_user_id'' s)) existingUserId)")
  case True
  show ?thesis
  proof (cases "text_or (getItem ''user_plan'' s) ''free'' = ''free''")
    case f: True
    from assms True f show ?thesis
      by (simp add: trackLogin_def login_name_text seq_def analytics_call_def ret_def Let_def split_def
          random_below_def random_def setItem_def getItem_def identified_ids_append)
  next
    case f: False
    from assms True f show ?thesis
      by (simp add: trackLogin_def login_name_text seq_def analytics_call_def ret_def Let_def split_def
          isTrialUser_def random_below_def random_def setItem_def getItem_def
          identified_ids_append)
  qed
next
  case False
  show ?thesis
  proof (cases "text_or (getItem ''user_plan'' s) ''free'' = ''free''")
    case f: True
    from assms False f show ?thesis
      by (simp add: trackLogin_def login_name_text seq_def analytics_call_def ret_def Let_def split_def
          va_generateRandomUserId_def random_below_def random_def setItem_def getItem_def
          identified_ids_append)
  next
    case f: False
    from assms False f show ?thesis
      by (simp add: trackLogin_def login_name_text seq_def analytics_call_def ret_def Let_def split_def
          va_generateRandomUserId_def isTrialUser_def random_below_def random_def
          setItem_def getItem_def identified_ids_append)
  qed
qed

text \<open>
  A login that finds an id in the store hands that id to \<^verbatim>\<open>analytics.identify\<close>,
  whatever id its caller supplies.
\<close>

lemma trackLogin_reuses_stored_id:
  assumes "analytics_defined s" and "getItem ''veed_user_id'' s = Some u" and "u \<noteq> []"
  shows "identified_ids (calls (snd (trackLogin (JStr email) existingUserId s)))
         = identified_ids (calls s) @ [JStr u]"
  using trackLogin_loaded [OF assms(1), of email existingUserId] assms(2,3)
  by (simp add: js_or_def nullable_def)

lemma logout_loaded:
  assumes "analytics_defined s"
  shows "logout s =
     (None, removeItem ''user_plan'' (removeItem ''veed_user_email'' (removeItem ''veed_user_id''
        (removeItem ''veed_user_data''
          (s\<lparr>calls := calls s @ [Track ''Logged Out''
               [(''sessionDuration'', JNum (of_int (now_ms (env s) - app_sessionStartTime s))),
                (''plan'', JStr (app_currentPlan s))], Reset],
             app_currentUser := None, app_currentPlan := ''free''\<rparr>)))))"
  using assms
  by (simp add: logout_def seq_def analytics_call_def ret_def Let_def split_def)

lemma logout_unloaded:
  "\<not> analytics_defined s \<Longrightarrow> logout s = (Some ReferenceError, s)"
  by (simp add: logout_def seq_def analytics_call_def)

lemma constructor_unloaded:
  "\<not> analytics_defined s \<Longrightarrow> fst (VeedAnalytics_constructor s) = Some ReferenceError"
  by (simp add: VeedAnalytics_constructor_def generateSessionId_def random_def Let_def split_def
      initializeTracking_def trackPageView_def generateUTMParameters_def pick_def seq_def
      analytics_call_def)

section \<open>The first visit, step by step\<close>

lemma demo_env_simps:
  "rnd demo_env n = real (n mod 36) / 36" "now_ms demo_env = 1000"
  "iso demo_env t = ''2024-01-15T10:30:00Z''" "num_text demo_env r = ''0''"
  "parse_int demo_env x = Some 0" "base36 demo_env r = ''i''"
  "href demo_env = ''https://veed.example/''" "pathname demo_env = ''/''"
  "referrer demo_env = []" "title demo_env = ''VEED''" "userAgent demo_env = ''Chrome''"
  "screenWidth demo_env = 1280" "screenHeight demo_env = 720"
  "transport_anonymousId demo_env = ''anon-1''"
  by (simp_all add: demo_env_def)

lemma demo_user_ids:
  "generateRandomUserId (rnd demo_env) 5 = (''FGHIJ'', 10)"
  "generateRandomUserId (rnd demo_env) 10 = (''KLMNO'', 15)"
  "generateRandomUserId (rnd demo_env) 17 = (''RSTUV'', 22)"
  "generateRandomUserId (rnd demo_env) 22 = (''WXYZ0'', 27)"
  by code_simp+

lemma loaded_page_eq:
  "loaded_page =
   \<lparr> env = demo_env, rpos = 5, analytics_defined = True,
     calls = [Page ''VEED Homepage''
        [(''url'', JStr ''https://veed.example/''), (''path'', JStr ''/''),
         (''referrer'', JStr []), (''title'', JStr ''VEED''),
         (''utm_source'', JStr ''google''), (''utm_medium'', JStr ''cpc''),
         (''utm_campaign'', JStr ''brand_awareness''),
         (''utm_content'', JStr ''hero_cta''),
         (''utm_term'', JStr ''video editor online free''),
         (''userAgent'', JStr ''Chrome''), (''screenWidth'', JNum 1280),
         (''screenHeight'', JNum 720),
         (''userJourneyStage'', JStr ''anonymous''),
         (''isAuthenticated'', JBool False)]],
     plain = [''veed_first_visit'' \<mapsto> ''2024-01-15T10:30:00Z'',
               ''veed_session_count'' \<mapsto> ''0''],
     user_data = None,
     onboarding_milestones = None,
     va_assigned = True, va_userId = JNull, va_sessionId = ''session_0_i'',
     va_anonymousId = JStr ''anon-1'', va_isInitialized = True, va_listening = True,
     app_currentUser = None,
     app_currentPlan = ''free'', app_projectCount = 0, app_sessionStartTime = 1000 \<rparr>"
  by (simp add: loaded_page_def analytics_onDOMContentLoaded_def seq_def ret_def
      VeedAnalytics_constructor_def getUserId_def getItem_def nullable_def
      generateSessionId_def random_def Let_def initializeTracking_def
      trackPageView_def generateUTMParameters_def pick_def arr_at_def analytics_call_def
      obj_lit_def getUserJourneyStage_def storedUserData_def obj_get_def
      setupEventListeners_def initFirstVisit_def setItem_def text_or_def num_val_def
      first_visit_def demo_env_simps)

lemma signed_up_eq:
  "signed_up =
   \<lparr> env = demo_env, rpos = 17, analytics_defined = True,
     calls = [Page ''VEED Homepage''
        [(''url'', JStr ''https://veed.example/''), (''path'', JStr ''/''),
         (''referrer'', JStr []), (''title'', JStr ''VEED''),
         (''utm_source'', JStr ''google''), (''utm_medium'', JStr ''cpc''),
         (''utm_campaign'', JStr ''brand_awareness''),
         (''utm_content'', JStr ''hero_cta''),
         (''utm_term'', JStr ''video editor online free''),
         (''userAgent'', JStr ''Chrome''), (''screenWidth'', JNum 1280),
         (''screenHeight'', JNum 720),
         (''userJourneyStage'', JStr ''anonymous''),
         (''isAuthenticated'', JBool False)],
      Identify (JStr ''KLMNO'')
        [(''name'', JStr ''Ann''), (''email'', JStr ''ann@x.io''),
         (''company'', JNull), (''plan'', JStr ''free''),
         (''createdAt'', JStr ''2024-01-15T10:30:00Z''),
         (''accountType'', JStr ''individual''),
         (''marketingOptIn'', JBool True), (''isTrial'', JBool False),
         (''role'', JStr ''user'')],
      Track ''Signed Up''
        [(''plan'', JStr ''free''), (''method'', JStr ''email''),
         (''source'', JStr ''homepage''), (''accountType'', JStr ''individual''),
         (''companySize'', JStr ''51-200''), (''industry'', JStr ''Education'')]],
     plain = [''veed_first_visit'' \<mapsto> ''2024-01-15T10:30:00Z'',
               ''veed_session_count'' \<mapsto> ''0'', ''user_plan'' \<mapsto> ''free'',
               ''veed_user_id'' \<mapsto> ''KLMNO'', ''veed_user_email'' \<mapsto> ''ann@x.io''],
     user_data = Some
        [(''name'', JStr ''Ann''), (''email'', JStr ''ann@x.io''),
         (''password'', JStr ''secret1''), (''company'', JStr []),
         (''signupDate'', JStr ''2024-01-15T10:30:00Z''),
         (''plan'', JStr ''free''), (''userId'', JStr ''KLMNO''),
         (''createdAt'', JStr ''2024-01-15T10:30:00Z'')],
     onboarding_milestones = None,
     va_assigned = True, va_userId = JStr ''KLMNO'', va_sessionId = ''session_0_i'',
     va_anonymousId = JStr ''anon-1'', va_isInitialized = True, va_listening = True,
     app_currentUser = Some
        [(''name'', JStr ''Ann''), (''email'', JStr ''ann@x.io''),
         (''password'', JStr ''secret1''), (''company'', JStr []),
         (''signupDate'', JStr ''2024-01-15T10:30:00Z''),
         (''plan'', JStr ''free''), (''userId'', JStr ''FGHIJ'')],
     app_currentPlan = ''free'', app_projectCount = 0, app_sessionStartTime = 1000 \<rparr>"
  unfolding signed_up_def loaded_page_eq
  by (simp add: performSignup_def va_generateRandomUserId_def demo_user_ids ann_def
      obj_lit_def json_obj_def setItem_def trackSignup_def seq_def ret_def analytics_call_def
      accountType_def obj_get_def js_or_def estimateCompanySize_def estimateIndustry_def
      pick_def arr_at_def random_def Let_def demo_env_simps)

lemma onboarded_eq:
  "onboarded =
   \<lparr> env = demo_env, rpos = 22, analytics_defined = True,
     calls = [Page ''VEED Homepage''
        [(''url'', JStr ''https://veed.example/''), (''path'', JStr ''/''),
         (''referrer'', JStr []), (''title'', JStr ''VEED''),
         (''utm_source'', JStr ''google''), (''utm_medium'', JStr ''cpc''),
         (''utm_campaign'', JStr ''brand_awareness''),
         (''utm_content'', JStr ''hero_cta''),
         (''utm_term'', JStr ''video editor online free''),
         (''userAgent'', JStr ''Chrome''), (''screenWidth'', JNum 1280),
         (''screenHeight'', JNum 720),
         (''userJourneyStage'', JStr ''anonymous''),
         (''isAuthenticated'', JBool False)],
      Identify (JStr ''KLMNO'')
        [(''name'', JStr ''Ann''), (''email'', JStr ''ann@x.io''),
         (''company'', JNull), (''plan'', JStr ''free''),
         (''createdAt'', JStr ''2024-01-15T10:30:00Z''),
         (''accountType'', JStr ''individual''),
         (''marketingOptIn'', JBool True), (''isTrial'', JBool False),
         (''role'', JStr ''user'')],
      Track ''Signed Up''
        [(''plan'', JStr ''free''), (''method'', JStr ''email''),
         (''source'', JStr ''homepage''), (''accountType'', JStr ''individual''),
         (''companySize'', JStr ''51-200''), (''industry'', JStr ''Education'')],
      Track ''Onboarding Milestone Completed''
        [(''user_id'', JStr ''KLMNO''),
         (''milestone'', JStr ''account_created''),
         (''session_id'', JStr ''session_0_i''),
         (''milestone_timestamp'', JStr ''2024-01-15T10:30:00Z''),
         (''days_since_signup'', JNum 14),
         (''onboarding_version'', JStr ''v2.1''),
         (''previous_milestones'', JArr []),
         (''milestone_completion_time'', JNum 150),
         (''drop_off_risk'', JNum (19 / 36)),
         (''engagement_score'', JNum (20 / 36)),
         (''feature_discovery_rate'', JNum (21 / 36))],
      Track ''Onboarding Tooltip Shown''
        [(''user_id'', JStr ''ann@x.io''),
         (''tooltip_type'', JStr ''welcome_message''), (''step'', JNum 1)]],
     plain = [''veed_first_visit'' \<mapsto> ''2024-01-15T10:30:00Z'',
               ''veed_session_count'' \<mapsto> ''0'', ''user_plan'' \<mapsto> ''free'',
               ''veed_user_id'' \<mapsto> ''KLMNO'', ''veed_user_email'' \<mapsto> ''ann@x.io''],
     user_data = Some
        [(''name'', JStr ''Ann''), (''email'', JStr ''ann@x.io''),
         (''password'', JStr ''secret1''), (''company'', JStr []),
         (''signupDate'', JStr ''2024-01-15T10:30:00Z''),
         (''plan'', JStr ''free''), (''userId'', JStr ''KLMNO''),
         (''createdAt'', JStr ''2024-01-15T10:30:00Z'')],
     onboarding_milestones = Some [''account_created''],
     va_assigned = True, va_userId = JStr ''KLMNO'', va_sessionId = ''session_0_i'',
     va_anonymousId = JStr ''anon-1'', va_isInitialized = True, va_listening = True,
     app_currentUser = Some
        [(''name'', JStr ''Ann''), (''email'', JStr ''ann@x.io''),
         (''password'', JStr ''secret1''), (''company'', JStr []),
         (''signupDate'', JStr ''2024-01-15T10:30:00Z''),
         (''plan'', JStr ''free''), (''userId'', JStr ''FGHIJ'')],
     app_currentPlan = ''free'', app_projectCount = 0, app_sessionStartTime = 1000 \<rparr>"
  unfolding onboarded_def signed_up_eq
  by (simp add: startOnboardingFlow_def trackOnboardingMilestone_def showOnboardingTooltip_def
      seq_def ret_def analytics_call_def random_below_def random_def Let_def
      getCompletedMilestones_def updateOnboardingProgress_def currentUser_email_def
      obj_get_def demo_env_simps)

lemma fixtures_loaded:
  "analytics_defined loaded_page" "analytics_defined signed_up" "analytics_defined onboarded"
  by (simp_all add: onboarded_eq signed_up_eq loaded_page_eq)

section \<open>Identity inside property maps\<close>

text \<open>
  C1.  After a signup, the onboarding timer reports the milestone
  \<^verbatim>\<open>account_created\<close>.  The property map of that event has the key
  \<^verbatim>\<open>user_id\<close>, holding the identified user id; the property map of
  \<^verbatim>\<open>Editor Opened\<close> has it too, holding the user's e-mail address.  So the code
  does emit property maps that carry an identity key.
\<close>

theorem onboarding_milestone_event_carries_user_id:
  "map obj_keys (tracked ''Onboarding Milestone Completed'' (calls onboarded))
     = [ [''user_id'', ''milestone'', ''session_id'', ''milestone_timestamp'',
         ''days_since_signup'', ''onboarding_version'', ''previous_milestones'',
         ''milestone_completion_time'', ''drop_off_risk'', ''engagement_score'',
         ''feature_discovery_rate''] ]
   \<and> prop_values ''user_id'' (tracked ''Onboarding Milestone Completed'' (calls onboarded))
     = [JStr ''KLMNO'']
   \<and> prop_values ''user_id''
       (tracked ''Editor Opened'' (calls (snd (openEditor True signed_up))))
     = [JStr ''ann@x.io'']
   \<and> ''user_id'' \<in> identity_keys"
proof -
  have "''user_id'' \<in> identity_keys" by (simp add: identity_keys_def)
  moreover have
    "map obj_keys (tracked ''Onboarding Milestone Completed'' (calls onboarded))
     = [ [''user_id'', ''milestone'', ''session_id'', ''milestone_timestamp'',
         ''days_since_signup'', ''onboarding_version'', ''previous_milestones'',
         ''milestone_completion_time'', ''drop_off_risk'', ''engagement_score'',
         ''feature_discovery_rate''] ]"
    by (simp add: onboarded_eq signed_up_eq loaded_page_eq first_visit_def tracked_def
        obj_keys_def)
  moreover have
    "prop_values ''user_id'' (tracked ''Onboarding Milestone Completed'' (calls onboarded))
     = [JStr ''KLMNO'']"
    by (simp add: onboarded_eq signed_up_eq loaded_page_eq first_visit_def tracked_def
        prop_values_def obj_get_def)
  moreover have
    "prop_values ''user_id''
       (tracked ''Editor Opened'' (calls (snd (openEditor True signed_up))))
     = [JStr ''ann@x.io'']"
    by (simp add: openEditor_def analytics_call_def currentUser_email_def signed_up_eq
        loaded_page_eq first_visit_def tracked_def prop_values_def obj_get_def)
  ultimately show ?thesis by blast
qed

section \<open>Where user ids are generated\<close>

text \<open>
  A login on a browser that stores no user data and no user id: \<^verbatim>\<open>performLogin\<close>
  generates an id and the user is identified under it.
\<close>

lemma performLogin_generates:
  assumes "analytics_defined s" and "va_assigned s" and "user_data s = None"
    and "getItem ''veed_user_id'' s = None" and "fst (va_generateRandomUserId s) \<noteq> []"
  shows "identified_ids (calls (snd (performLogin email s)))
         = identified_ids (calls s) @ [JStr (fst (va_generateRandomUserId s))]"
proof -
  define g where "g = fst (va_generateRandomUserId s)"
  define s1 where "s1 = snd (va_generateRandomUserId s)"
  define cu where "cu =
     [(''email'', JStr email), (''name'', JStr (before_at email)),
      (''loginDate'', JStr (iso (env s1) (now_ms (env s1)))),
      (''userId'', JStr g), (''company'', JNull)]"
  define s2 where "s2 = s1\<lparr>app_currentUser := Some cu, user_data := Some (json_obj cu)\<rparr>"
  have s1: "analytics_defined s1" "va_assigned s1" "plain s1 = plain s" "calls s1 = calls s"
    using assms(1,2) by (simp_all add: s1_def va_generateRandomUserId_def split_def Let_def)
  have pl: "performLogin email s = trackLogin (JStr email) (JStr g) s2"
    using assms(3) s1(2)
    by (simp add: performLogin_def storedUserData_def obj_get_def js_or_def Let_def split_def
        assms(2) g_def [symmetric] s1_def [symmetric] cu_def s2_def)
  have s2: "analytics_defined s2" "getItem ''veed_user_id'' s2 = None" "calls s2 = calls s"
    using s1 assms(4) by (simp_all add: s2_def getItem_def)
  from assms(5) have g: "g \<noteq> []" by (simp add: g_def)
  from trackLogin_loaded [OF s2(1), of email "JStr g"] s2(2,3) g show ?thesis
    by (simp add: pl js_or_def nullable_def g_def)
qed

text \<open>
  C2.  A visitor who logs in on a browser that holds no user id is identified under an
  id that the login itself generates: \<^verbatim>\<open>performLogin\<close> draws it from
  generateRandomUserId, and so does \<^verbatim>\<open>trackLogin\<close> when it is called without an
  id.  After signup and logout, the next login of the same person is identified under a
  second, different id, whether or not the onboarding timer fired before the logout.
\<close>

theorem login_generates_new_user_id:
  "identified_ids (calls (snd (performLogin ''ann@x.io'' loaded_page))) = [JStr ''FGHIJ'']
   \<and> fst (va_generateRandomUserId loaded_page) = ''FGHIJ''
   \<and> identified_ids (calls (snd (trackLogin (JStr ''ann@x.io'') JNull loaded_page)))
     = [JStr ''FGHIJ'']
   \<and> identified_ids (calls signed_up) = [JStr ''KLMNO'']
   \<and> identified_ids (calls (snd (performLogin ''ann@x.io'' (snd (logout signed_up)))))
     = [JStr ''KLMNO'', JStr ''RSTUV'']
   \<and> identified_ids (calls (snd (performLogin ''ann@x.io'' (snd (logout onboarded)))))
     = [JStr ''KLMNO'', JStr ''WXYZ0'']"
proof -
  have g1: "fst (va_generateRandomUserId loaded_page) = ''FGHIJ''"
    unfolding loaded_page_eq by (simp add: va_generateRandomUserId_def demo_user_ids)
  have p1: "va_assigned loaded_page" "user_data loaded_page = None"
    "getItem ''veed_user_id'' loaded_page = None" "identified_ids (calls loaded_page) = []"
    unfolding loaded_page_eq by (simp_all add: getItem_def)
  have a: "identified_ids (calls (snd (performLogin ''ann@x.io'' loaded_page))) = [JStr ''FGHIJ'']"
    using performLogin_generates [OF fixtures_loaded(1) p1(1,2,3), of "''ann@x.io''"] g1 p1(4)
    by simp
  have b: "identified_ids (calls (snd (trackLogin (JStr ''ann@x.io'') JNull loaded_page)))
           = [JStr ''FGHIJ'']"
    using trackLogin_loaded [OF fixtures_loaded(1), of "''ann@x.io''" JNull] g1 p1(3,4)
    by (simp add: js_or_def nullable_def)
  have ids: "identified_ids (calls signed_up) = [JStr ''KLMNO'']"
    unfolding signed_up_eq by simp
  have su: "env signed_up = demo_env" "rpos signed_up = 17" "va_assigned signed_up"
    unfolding signed_up_eq by simp_all
  let ?s = "snd (logout signed_up)"
  have lo: "analytics_defined ?s" "va_assigned ?s" "user_data ?s = None"
    "getItem ''veed_user_id'' ?s = None" "identified_ids (calls ?s) = [JStr ''KLMNO'']"
    "env ?s = demo_env" "rpos ?s = 17"
    by (simp_all add: logout_loaded [OF fixtures_loaded(2)] removeItem_def getItem_def su ids
        fixtures_loaded(2) identified_ids_append)
  have g2: "fst (va_generateRandomUserId ?s) = ''RSTUV''"
    by (simp add: va_generateRandomUserId_def lo(6,7) demo_user_ids)
  have c: "identified_ids (calls (snd (performLogin ''ann@x.io'' ?s)))
           = [JStr ''KLMNO'', JStr ''RSTUV'']"
    using performLogin_generates [OF lo(1,2,3,4), of "''ann@x.io''"] g2 lo(5)
    by simp
  have ob: "env onboarded = demo_env" "rpos onboarded = 22" "va_assigned onboarded"
    "identified_ids (calls onboarded) = [JStr ''KLMNO'']"
    unfolding onboarded_eq by simp_all
  let ?t = "snd (logout onboarded)"
  have lt: "analytics_defined ?t" "va_assigned ?t" "user_data ?t = None"
    "getItem ''veed_user_id'' ?t = None" "identified_ids (calls ?t) = [JStr ''KLMNO'']"
    "env ?t = demo_env" "rpos ?t = 22"
    by (simp_all add: logout_loaded [OF fixtures_loaded(3)] removeItem_def getItem_def ob
        fixtures_loaded(3) identified_ids_append)
  have g3: "fst (va_generateRandomUserId ?t) = ''WXYZ0''"
    by (simp add: va_generateRandomUserId_def lt(6,7) demo_user_ids)
  have d: "identified_ids (calls (snd (performLogin ''ann@x.io'' ?t)))
           = [JStr ''KLMNO'', JStr ''WXYZ0'']"
    using performLogin_generates [OF lt(1,2,3,4), of "''ann@x.io''"] g3 lt(5)
    by simp
  from a g1 b ids c d show ?thesis by blast
qed

section \<open>The identity that track calls are attributed to\<close>

lemma bound_after_Cons: "bound_after b (c # cs) = bound_after (transport_step b c) cs"
  by (simp add: bound_after_def)

lemma attributed_append:
  "attributed b (xs @ ys) = attributed b xs @ attributed (bound_after b xs) ys"
  by (induction xs arbitrary: b) (simp_all add: bound_after_def)

lemma length_attributed: "length (attributed b cs) = length cs"
  by (induction cs arbitrary: b) simp_all

lemma bound_after_kept:
  "\<forall>c\<in>set cs. \<not> rebinds c \<Longrightarrow> bound_after b cs = b"
proof (induction cs arbitrary: b)
  case Nil
  show ?case by (simp add: bound_after_def)
next
  case (Cons c cs)
  from Cons.prems have "\<not> rebinds c" by simp
  then have "transport_step b c = b" by (cases c) simp_all
  with Cons show ?case by (simp add: bound_after_Cons)
qed

lemma track_attributions_append:
  "track_attributions b (xs @ ys)
   = track_attributions b xs @ track_attributions (bound_after b xs) ys"
  by (simp add: track_attributions_def attributed_append)

lemma attributed_after_identify:
  assumes "\<forall>c\<in>set mid. \<not> rebinds c"
  shows "attributed b (pre @ Identify uid traits # mid @ Track n props # post)
           ! (length pre + Suc (length mid)) = (Some uid, Track n props)"
proof -
  let ?b = "bound_after b pre"
  have "attributed b (pre @ Identify uid traits # mid @ Track n props # post)
          ! (length pre + Suc (length mid))
        = attributed ?b (Identify uid traits # mid @ Track n props # post) ! Suc (length mid)"
    by (simp add: attributed_append nth_append length_attributed)
  also have "\<dots> = attributed (Some uid) (mid @ Track n props # post) ! length mid"
    by simp
  also have "\<dots> = attributed (bound_after (Some uid) mid) (Track n props # post) ! 0"
    by (simp add: attributed_append nth_append length_attributed)
  also have "\<dots> = (Some uid, Track n props)"
    by (simp add: bound_after_kept [OF assms])
  finally show ?thesis .
qed

text \<open>The two calls that a signup hands to the transport.\<close>

lemma trackSignup_calls:
  assumes "analytics_defined s"
  shows "\<exists>traits props. calls (snd (trackSignup (Some userData) s))
           = calls s @ [Identify (JStr (fst (va_generateRandomUserId s))) traits,
                        Track ''Signed Up'' props]"
  using assms
  by (simp add: trackSignup_def seq_def analytics_call_def ret_def Let_def split_def
        va_generateRandomUserId_def estimateCompanySize_def estimateIndustry_def
        pick_def random_def setItem_def)

lemma showUpgradePrompt_calls:
  assumes "analytics_defined s"
  shows "\<exists>props. calls (snd (showUpgradePrompt reason False s))
           = calls s @ [Track ''Upgrade Prompt Shown'' props]"
  using assms
  by (simp add: showUpgradePrompt_def seq_def analytics_call_def ret_def)

text \<open>
  C3.  Under the transport of the specification, in every call log a track call that
  follows an identify call, with no later identify and no reset in between, is attributed
  to exactly the user id that identify call was given.  For the facade: the
  \<^verbatim>\<open>Signed Up\<close> event of a signup is attributed to the id the signup generated and
  identified, and the \<^verbatim>\<open>Upgrade Prompt Shown\<close> event is attributed to the identity
  bound at that moment, whatever its property map says.
\<close>

theorem track_attributed_to_latest_identify:
  "((\<forall>c\<in>set mid. \<not> rebinds c) \<longrightarrow>
      attributed b (pre @ Identify uid traits # mid @ Track n props # post)
        ! (length pre + Suc (length mid)) = (Some uid, Track n props))
   \<and> (analytics_defined s \<longrightarrow>
        track_attributions b (calls (snd (trackSignup (Some userData) s)))
        = track_attributions b (calls s) @ [Some (JStr (fst (va_generateRandomUserId s)))])
   \<and> (analytics_defined s \<longrightarrow>
        track_attributions b (calls (snd (showUpgradePrompt reason False s)))
        = track_attributions b (calls s) @ [bound_after b (calls s)])"
proof -
  have signup: "track_attributions b (calls (snd (trackSignup (Some userData) s)))
        = track_attributions b (calls s) @ [Some (JStr (fst (va_generateRandomUserId s)))]"
    if "analytics_defined s"
  proof -
    from trackSignup_calls [OF that, of userData] obtain t p where
      "calls (snd (trackSignup (Some userData) s))
       = calls s @ [Identify (JStr (fst (va_generateRandomUserId s))) t, Track ''Signed Up'' p]"
      by blast
    then show ?thesis
      by (simp add: track_attributions_append) (simp add: track_attributions_def)
  qed
  have prompt: "track_attributions b (calls (snd (showUpgradePrompt reason False s)))
        = track_attributions b (calls s) @ [bound_after b (calls s)]"
    if "analytics_defined s"
  proof -
    from showUpgradePrompt_calls [OF that, of reason] obtain p where
      "calls (snd (showUpgradePrompt reason False s))
       = calls s @ [Track ''Upgrade Prompt Shown'' p]"
      by blast
    then show ?thesis
      by (simp add: track_attributions_append) (simp add: track_attributions_def)
  qed
  from attributed_after_identify [of mid b pre uid traits n props post] signup prompt
  show ?thesis by blast
qed

theorem track_attributed_to_latest_identify_witness:
  "analytics_defined signed_up
   \<and> \<not> rebinds (Track ''Signed Up'' [])
   \<and> attributed None
        ([Page ''VEED Homepage'' []] @ Identify (JStr ''KLMNO'') [] # [Track ''Signed Up'' []]
           @ Track ''Upgrade Prompt Shown'' [(''user_id'', JStr ''ann@x.io'')] # [])
        ! (length [Page ''VEED Homepage'' []] + Suc (length [Track ''Signed Up'' []]))
      = (Some (JStr ''KLMNO''),
         Track ''Upgrade Prompt Shown'' [(''user_id'', JStr ''ann@x.io'')])
   \<and> identified_ids (calls (snd (showUpgradePrompt ''export_limit'' False signed_up)))
      = [JStr ''KLMNO'']
   \<and> track_attributions None (calls (snd (showUpgradePrompt ''export_limit'' False signed_up)))
      = [Some (JStr ''KLMNO''), Some (JStr ''KLMNO'')]"
proof -
  have a: "analytics_defined signed_up" by (rule fixtures_loaded)
  have m: "\<forall>c\<in>set [Track ''Signed Up'' []]. \<not> rebinds c" by simp
  have t: "track_attributions None (calls signed_up) = [Some (JStr ''KLMNO'')]"
    by (simp add: signed_up_eq track_attributions_def)
  have b: "bound_after None (calls signed_up) = Some (JStr ''KLMNO'')"
    by (simp add: signed_up_eq bound_after_def)
  have i: "identified_ids (calls (snd (showUpgradePrompt ''export_limit'' False signed_up)))
           = [JStr ''KLMNO'']"
    by (simp add: showUpgradePrompt_def seq_def ret_def analytics_call_def signed_up_eq)
  have r: "\<not> rebinds (Track ''Signed Up'' [])" by simp
  from a m r t b i
    track_attributed_to_latest_identify
      [of "[Track ''Signed Up'' []]" None "[Page ''VEED Homepage'' []]" "JStr ''KLMNO''" "[]"
          "''Upgrade Prompt Shown''" "[(''user_id'', JStr ''ann@x.io'')]" "[]"
          signed_up ann "''export_limit''"]
  show ?thesis by simp
qed

section \<open>Without the transport\<close>

text \<open>
  C6.  When the tracking library did not load, the constructor of the facade throws a
  ReferenceError (its fallback branch goes on to call \<^verbatim>\<open>analytics.page\<close>), so the
  facade is never stored in \<^verbatim>\<open>window.veedAnalytics\<close>.  A later logout throws as
  well and leaves the user signed in.
\<close>

theorem constructor_throws_without_transport:
  "fst (VeedAnalytics_constructor (first_visit False)) = Some ReferenceError
   \<and> fst (analytics_onDOMContentLoaded (first_visit False)) = Some ReferenceError
   \<and> va_assigned (snd (analytics_onDOMContentLoaded (first_visit False))) = False
   \<and> fst (performLogin ''ann@x.io'' (first_visit False)) = None
   \<and> fst (logout (snd (performLogin ''ann@x.io'' (first_visit False)))) = Some ReferenceError
   \<and> app_currentUser (snd (logout (snd (performLogin ''ann@x.io'' (first_visit False)))))
     = app_currentUser (snd (performLogin ''ann@x.io'' (first_visit False)))
   \<and> app_currentUser (snd (performLogin ''ann@x.io'' (first_visit False))) \<noteq> None"
proof -
  have "fst (VeedAnalytics_constructor (first_visit False)) = Some ReferenceError"
    by code_simp
  moreover have "fst (analytics_onDOMContentLoaded (first_visit False)) = Some ReferenceError"
    by code_simp
  moreover have "va_assigned (snd (analytics_onDOMContentLoaded (first_visit False))) = False"
    by code_simp
  moreover have "fst (performLogin ''ann@x.io'' (first_visit False)) = None"
    by code_simp
  moreover have
    "fst (logout (snd (performLogin ''ann@x.io'' (first_visit False)))) = Some ReferenceError"
    by code_simp
  moreover have
    "app_currentUser (snd (logout (snd (performLogin ''ann@x.io'' (first_visit False)))))
     = app_currentUser (snd (performLogin ''ann@x.io'' (first_visit False)))"
    by code_simp
  moreover have "app_currentUser (snd (performLogin ''ann@x.io'' (first_visit False))) \<noteq> None"
    by code_simp
  ultimately show ?thesis by blast
qed

section \<open>Identify-time operations and a missing identity\<close>

text \<open>
  C7 as stated fails: on a page whose facade holds no user id, trackSubscriptionUpgrade
  returns normally and hands \<^verbatim>\<open>null\<close> to \<^verbatim>\<open>analytics.identify\<close>, and trackLogin
  called without any id returns normally too.
\<close>

theorem blank_identity_is_forwarded:
  "va_userId loaded_page = JNull
   \<and> fst (trackSubscriptionUpgrade (Some [(''plan'', JStr ''pro'')]) loaded_page) = None
   \<and> identified_ids
       (calls (snd (trackSubscriptionUpgrade (Some [(''plan'', JStr ''pro'')]) loaded_page)))
     = [JNull]
   \<and> getItem ''veed_user_id'' loaded_page = None
   \<and> fst (trackLogin (JStr ''ann@x.io'') JNull loaded_page) = None"
proof -
  have l: "analytics_defined loaded_page" by (rule fixtures_loaded)
  have u: "va_userId loaded_page = JNull" "getItem ''veed_user_id'' loaded_page = None"
    "identified_ids (calls loaded_page) = []"
    by (simp_all add: loaded_page_eq getItem_def)
  from u trackSubscriptionUpgrade_loaded [OF l, of "[(''plan'', JStr ''pro'')]"]
    trackLogin_loaded [OF l, of "''ann@x.io''" JNull]
  show ?thesis by simp
qed

text \<open>
  A missing argument is another matter: reading a property of it throws the runtime's
  TypeError before any call reaches the transport.
\<close>

lemma missing_argument_throws:
  "trackSubscriptionUpgrade None s = (Some TypeError, s)"
  "analytics_defined s \<Longrightarrow> fst (trackSignup None s) = Some TypeError"
  "analytics_defined s \<Longrightarrow> calls (snd (trackSignup None s)) = calls s"
  "analytics_defined s \<Longrightarrow> getItem ''veed_user_id'' s = Some u \<Longrightarrow> u \<noteq> [] \<Longrightarrow>
     \<not> truthy (obj_get (storedUserData s) ''name'') \<Longrightarrow>
     trackLogin JUndefined existingUserId s = (Some TypeError, s)"
  by (simp_all add: trackSubscriptionUpgrade_def trackSignup_def trackLogin_def login_name_def
      va_generateRandomUserId_def split_def Let_def js_or_def nullable_def)

text \<open>
  C7, amended.  No identify-time operation checks the identity at hand or rejects the
  call: with the transport loaded and the call's arguments present (a userData object for
  trackSignup, an e-mail text for trackLogin, a planData object for
  trackSubscriptionUpgrade), each operation returns without an error whatever user id is
  stored, supplied or held by the facade, a missing or blank one included.  (The stored
  user data is the JSON that the program itself wrote.)
\<close>

theorem identify_operations_do_not_validate:
  assumes "analytics_defined s"
  shows "fst (trackSignup (Some userData) s) = None
         \<and> fst (trackLogin (JStr email) existingUserId s) = None
         \<and> fst (trackSubscriptionUpgrade (Some planData) s) = None"
  using trackSignup_loaded [OF assms, of userData]
    trackLogin_loaded [OF assms, of email existingUserId]
    trackSubscriptionUpgrade_loaded [OF assms, of planData]
  by simp

theorem identify_operations_do_not_validate_witness:
  "analytics_defined loaded_page
   \<and> va_userId loaded_page = JNull
   \<and> getItem ''veed_user_id'' loaded_page = None
   \<and> fst (trackSignup (Some ann) loaded_page) = None
   \<and> fst (trackLogin (JStr ''ann@x.io'') JNull loaded_page) = None
   \<and> fst (trackSubscriptionUpgrade (Some [(''plan'', JStr ''pro'')]) loaded_page) = None"
proof -
  have a: "analytics_defined loaded_page" by (rule fixtures_loaded)
  have b: "va_userId loaded_page = JNull" "getItem ''veed_user_id'' loaded_page = None"
    by (simp_all add: loaded_page_eq getItem_def)
  from a b identify_operations_do_not_validate
    [OF a, of ann "''ann@x.io''" JNull "[(''plan'', JStr ''pro'')]"]
  show ?thesis by simp
qed

section \<open>What logout removes\<close>

text \<open>
  C8 as stated fails: after signup and the onboarding milestone, logout leaves the
  completed-milestone list in the store.
\<close>

theorem logout_keeps_onboarding_milestones:
  "onboarding_milestones (snd (logout onboarded)) = Some [''account_created'']
   \<and> ''onboarding_milestones'' \<in> store_keys (snd (logout onboarded))"
proof -
  have a: "onboarding_milestones (snd (logout onboarded)) = Some [''account_created'']"
    unfolding logout_loaded [OF fixtures_loaded(3)] snd_conv
    by (simp add: removeItem_def onboarded_eq)
  then show ?thesis by (simp add: store_keys_def)
qed

lemma removeItem_keys: "store_keys (removeItem k s) = store_keys s - {k}"
  by (auto simp: store_keys_def removeItem_def split: if_splits)

text \<open>
  C8, amended.  With the transport loaded, logout returns normally and removes exactly
  the keys \<^verbatim>\<open>veed_user_data\<close>, \<^verbatim>\<open>veed_user_id\<close>, \<^verbatim>\<open>veed_user_email\<close> and
  \<^verbatim>\<open>user_plan\<close> from the store; every other entry, the usage counters and the
  completed-milestone list among them, is left as it was.
\<close>

theorem logout_removes_identity_keys_only:
  assumes "analytics_defined s"
  shows "fst (logout s) = None
         \<and> store_keys (snd (logout s))
           = store_keys s - {''veed_user_data'', ''veed_user_id'', ''veed_user_email'', ''user_plan''}
         \<and> (\<forall>k. k \<notin> {''veed_user_data'', ''veed_user_id'', ''veed_user_email'', ''user_plan''}
                \<longrightarrow> plain (snd (logout s)) k = plain s k)
         \<and> onboarding_milestones (snd (logout s)) = onboarding_milestones s"
proof -
  have k: "store_keys (s\<lparr>calls := cs, app_currentUser := u, app_currentPlan := p\<rparr>) = store_keys s"
    for cs u p
    by (simp add: store_keys_def)
  have "store_keys (snd (logout s))
        = store_keys s - {''veed_user_data'', ''veed_user_id'', ''veed_user_email'', ''user_plan''}"
    unfolding logout_loaded [OF assms] snd_conv removeItem_keys k by blast
  moreover have "fst (logout s) = None"
    by (simp add: logout_loaded [OF assms])
  moreover have "\<forall>k. k \<notin> {''veed_user_data'', ''veed_user_id'', ''veed_user_email'', ''user_plan''}
                \<longrightarrow> plain (snd (logout s)) k = plain s k"
    by (simp add: logout_loaded [OF assms] removeItem_def)
  moreover have "onboarding_milestones (snd (logout s)) = onboarding_milestones s"
    by (simp add: logout_loaded [OF assms] removeItem_def)
  ultimately show ?thesis by blast
qed

theorem logout_removes_identity_keys_only_witness:
  "analytics_defined onboarded
   \<and> plain onboarded ''veed_user_id'' = Some ''KLMNO''
   \<and> fst (logout onboarded) = None
   \<and> ''veed_user_id'' \<notin> store_keys (snd (logout onboarded))
   \<and> ''veed_user_data'' \<notin> store_keys (snd (logout onboarded))
   \<and> plain (snd (logout onboarded)) ''veed_first_visit'' = plain onboarded ''veed_first_visit''
   \<and> onboarding_milestones (snd (logout onboarded)) = onboarding_milestones onboarded"
proof -
  have a: "analytics_defined onboarded" by (rule fixtures_loaded)
  have b: "plain onboarded ''veed_user_id'' = Some ''KLMNO''"
    by (simp add: onboarded_eq signed_up_eq)
  from a b logout_removes_identity_keys_only [OF a] show ?thesis by simp
qed

end
